theory Spec2Isabelle
  imports Complex_Main "HOL-Library.Multiset"
begin

section \<open>The ingestion worker (worker.py): data model\<close>

text \<open>
  Conventions of the embedding.
  \<^item> A Python \<open>str\<close> is a list of Unicode code points (\<open>pystr\<close>); the keys of the
    dictionaries are fixed by the source and become record fields.
  \<^item> The thresholds, the confidence, a numeric trust score and the spend counters are
    real numbers. The arithmetic of the similarity scan, whose result depends on the
    rounding of binary64, is a parameter of the model (record \<open>float_ops\<close> below) and
    is never assumed to be exact.
  \<^item> \<open>dict.get(k)\<close> on a string or list field is an \<open>option\<close>: \<open>None\<close> stands for an
    absent key and for a JSON \<open>null\<close>.
  \<^item> The answers of the external providers and of the network are inputs of the model
    (record \<open>responses\<close> below). The table definitions are not part of the sources: the
    durable store is assumed to execute every statement with the values it is given.
\<close>

type_synonym pystr = "nat list"

text \<open>
  What \<open>normalize_item\<close> uses of the interpreter: \<open>str.isdigit\<close> on one character, the
  decimal value \<open>int()\<close> gives a character (\<open>None\<close> where \<open>int()\<close> rejects it, as it does
  for a superscript digit), and the limit on the number of digits \<open>int()\<close> converts
  (\<open>0\<close>: no limit).
\<close>

record py_runtime =
  isdigit :: "nat \<Rightarrow> bool"
  decimal :: "nat \<Rightarrow> nat option"
  int_max_str_digits :: nat

text \<open>Truthiness of an optional string and Python's \<open>a or b\<close> on such values.\<close>

fun truthy :: "'a list option \<Rightarrow> bool" where
  "truthy None = False"
| "truthy (Some s) = (s \<noteq> [])"

definition py_or :: "'a list option \<Rightarrow> 'a list option \<Rightarrow> 'a list option" where
  "py_or a b = (if truthy a then a else b)"

text \<open>
  \<open>int(s)\<close> on a string \<open>s\<close> of \<open>isdigit\<close> characters: a \<open>ValueError\<close> (here \<open>None\<close>) on the
  empty string, on a string longer than the digit limit and on a character without a
  decimal value; otherwise the number the decimal digits denote.
\<close>

definition py_int :: "py_runtime \<Rightarrow> pystr \<Rightarrow> nat option" where
  "py_int R s =
     (if s = [] then None
      else if int_max_str_digits R \<noteq> 0 \<and> int_max_str_digits R < length s then None
      else case those (map (decimal R) s) of
             None \<Rightarrow> None
           | Some ds \<Rightarrow> Some (foldl (\<lambda>a d. 10 * a + d) 0 ds))"

subsection \<open>Configuration\<close>

record config =
  CONFIDENCE_THRESHOLD :: real
  TRUST_SCORE_PUBLISH :: real
  PRICE_ANOMALY_PCT :: real
  DEDUPE_SIMILARITY :: real
  GPT5_PRICE_THRESHOLD :: int
  DAILY_GPT5_BUDGET :: real
  DAILY_PERPLEXITY_BUDGET :: real
  gemini_model :: bool
  anthropic_client :: bool
  openai_client :: bool

text \<open>The defaults of the source, with every provider client initialised.\<close>

definition default_config :: config where
  "default_config =
     \<lparr> CONFIDENCE_THRESHOLD = 7 / 10, TRUST_SCORE_PUBLISH = 6 / 10, PRICE_ANOMALY_PCT = 20,
       DEDUPE_SIMILARITY = 92 / 100, GPT5_PRICE_THRESHOLD = 300000,
       DAILY_GPT5_BUDGET = 50, DAILY_PERPLEXITY_BUDGET = 40,
       gemini_model = True, anthropic_client = True, openai_client = True \<rparr>"

subsection \<open>Raw and normalized listings\<close>

text \<open>The fields \<open>normalize_item\<close> reads from \<open>raw_item["extracted"]\<close>.\<close>

record extracted =
  ex_title :: "pystr option"
  ex_name :: "pystr option"
  ex_price :: "pystr option"
  ex_price_inr :: "pystr option"
  ex_make :: "pystr option"
  ex_brand :: "pystr option"
  ex_model :: "pystr option"
  ex_year :: "pystr option"
  ex_mileage :: "pystr option"
  ex_city :: "pystr option"
  ex_images :: "pystr list option"
  ex_contact :: "pystr option"

text \<open>
  The argument of \<open>normalize_item\<close>: the extraction and the top-level keys the function
  falls back to. A raw listing is such a dictionary with the identity fields that
  \<open>call_firecrawl_api\<close> sets.
\<close>

record norm_input =
  rw_extracted :: extracted
  rw_title :: "pystr option"
  rw_price :: "pystr option"
  rw_city :: "pystr option"
  rw_images :: "pystr list option"
  rw_contact :: "pystr option"

record raw_item = norm_input +
  rw_source :: pystr
  rw_source_id :: pystr
  rw_raw_html :: pystr

record normalized =
  n_title :: "pystr option"
  n_price :: "nat option"
  n_make :: "pystr option"
  n_model :: "pystr option"
  n_year :: "pystr option"
  n_mileage :: "pystr option"
  n_city :: "pystr option"
  n_images :: "pystr list"
  n_contact :: "pystr option"

section \<open>Normalizer\<close>

text \<open>
  The price block of \<open>normalize_item\<close>: the first truthy of the three price keys, then
  the digits of its text through \<open>int()\<close>. The result is the price and the amount taken
  from the confidence; both the \<open>else\<close> branch and the \<open>except\<close> branch give \<open>None\<close> and 0.4.
\<close>

definition price_value :: "'a norm_input_scheme \<Rightarrow> pystr option" where
  "price_value raw =
     py_or (py_or (ex_price (rw_extracted raw)) (ex_price_inr (rw_extracted raw))) (rw_price raw)"

definition parse_price :: "py_runtime \<Rightarrow> pystr option \<Rightarrow> nat option \<times> real" where
  "parse_price R price =
     (case price of
        None \<Rightarrow> (None, 4 / 10)
      | Some s \<Rightarrow> (case py_int R (filter (isdigit R) s) of
                     Some p \<Rightarrow> (Some p, 0)
                   | None \<Rightarrow> (None, 4 / 10)))"

definition normalize_item :: "py_runtime \<Rightarrow> 'a norm_input_scheme \<Rightarrow> normalized \<times> real" where
  "normalize_item R raw =
     (let ex = rw_extracted raw;
          confidence = 9 / 10;
          title = py_or (py_or (ex_title ex) (rw_title raw)) (ex_name ex);
          (price, penalty) = parse_price R (price_value raw);
          confidence = confidence - penalty;
          images = (case py_or (ex_images ex) (rw_images raw) of
                      None \<Rightarrow> [] | Some l \<Rightarrow> l);
          contact = py_or (ex_contact ex) (rw_contact raw);
          confidence = (if images = [] then confidence - 3 / 10 else confidence);
          confidence = (if \<not> truthy contact then confidence - 2 / 10 else confidence);
          confidence = max 0 (min 1 confidence)
      in (\<lparr> n_title = title, n_price = price,
             n_make = py_or (ex_make ex) (ex_brand ex), n_model = ex_model ex,
             n_year = ex_year ex, n_mileage = ex_mileage ex,
             n_city = py_or (ex_city ex) (rw_city raw),
             n_images = images, n_contact = contact \<rparr>, confidence))"

text \<open>An extraction with no field, and the raw item of Scenario 1.\<close>

definition no_fields :: extracted where
  "no_fields =
     \<lparr> ex_title = None, ex_name = None, ex_price = None, ex_price_inr = None,
       ex_make = None, ex_brand = None, ex_model = None, ex_year = None,
       ex_mileage = None, ex_city = None, ex_images = None, ex_contact = None \<rparr>"

definition only_extracted :: "extracted \<Rightarrow> norm_input" where
  "only_extracted ex =
     \<lparr> rw_extracted = ex, rw_title = None, rw_price = None, rw_city = None,
       rw_images = None, rw_contact = None \<rparr>"

text \<open>
  A runtime table that knows the ASCII digits only, with the digit limit of
  CPython 3.11; it agrees with \<open>str.isdigit\<close> and \<open>int()\<close> on the characters used in the
  examples below.
\<close>

definition ascii_runtime :: py_runtime where
  "ascii_runtime =
     \<lparr> isdigit = (\<lambda>c. 48 \<le> c \<and> c \<le> 57),
       decimal = (\<lambda>c. if 48 \<le> c \<and> c \<le> 57 then Some (c - 48) else None),
       int_max_str_digits = 4300 \<rparr>"

text \<open>The text \<open>U+20B9 4,50,000\<close> of Scenario 1 (the rupee sign, then \<open>4,50,000\<close>).\<close>

definition rupee_price :: pystr where
  "rupee_price = [8377, 52, 44, 53, 48, 44, 48, 48, 48]"


definition scenario1_raw :: norm_input where
  "scenario1_raw = only_extracted (no_fields \<lparr> ex_price := Some rupee_price \<rparr>)"

section \<open>Spend counters, provider answers and the state of a batch\<close>

datatype provider = Gpt5 | Perplexity | Gemini | Anthropic

text \<open>
  The exceptions of the model: a comparison of a number with a value that is not a
  number, and a float division by zero.
\<close>

datatype py_error = TypeError | ZeroDivisionError

text \<open>
  The value of the key \<open>trust_score\<close> in a provider answer: a JSON number (a JSON
  boolean compares like 1 or 0 and counts as one), or any other JSON value (\<open>null\<close>, a
  string, an array, an object), for which \<open>trust_score < x\<close>, \<open>trust_score >= x\<close> and
  \<open>min(0.85, trust_score)\<close> raise a \<open>TypeError\<close>.
\<close>

datatype trust_value = Number real | NonNumeric

datatype status = Raw | Needs_human | Needs_review | Published

text \<open>
  A row of \<open>production_portal_listings\<close>. The table definition is not part of the
  sources; the columns are those the statements of worker.py name, without
  \<open>fetched_at\<close>, which holds the clock of the store.
\<close>

record listing_row =
  row_id :: nat
  row_source :: pystr
  row_source_id :: pystr
  row_batch_ts :: pystr
  row_normalized :: normalized
  row_raw :: raw_item
  row_status :: status
  row_confidence :: real
  row_trust_score :: "trust_value option"

record price_band =
  low :: int
  median :: int
  high :: int
  band_confidence :: real

text \<open>
  The decision dictionary \<open>final\<close>: \<open>approve\<close> is the truth value of
  \<open>final.get("approve")\<close>, the other keys may be missing in a provider answer. The
  summary text, which no decision reads, is left out.
\<close>

record final_decision =
  approve :: bool
  final_price_band :: "price_band option"
  final_trust_score :: "real option"

record trusted_row =
  canonical :: normalized
  canonical_price_band :: "price_band option"
  cached_images :: "pystr list"
  trusted_trust_score :: real
  source_list :: "pystr list"

text \<open>
  The log of the run: one entry for every request sent to a provider, and
  \<open>Finalize_call\<close> for every call of \<open>call_gpt5_finalize\<close> by the loop.
\<close>

datatype event =
    Anthropic_request
  | Perplexity_request
  | Embedding_request
  | Chat_request
  | Finalize_call

text \<open>
  The answers one listing receives. \<open>None\<close> is a request that raised or an answer
  without a JSON object; for the validation provider \<open>Some None\<close> is an object without
  the key \<open>trust_score\<close>. \<open>completion_order\<close> is the order in which \<open>as_completed\<close>
  yields the download futures.
\<close>

record responses =
  anthropic_response :: "trust_value option option"
  perplexity_response :: bool
  embedding_response :: "real list option"
  gpt5_response :: "final_decision option"
  download_result :: "pystr \<Rightarrow> pystr option"
  upload_result :: "pystr \<Rightarrow> pystr option"
  completion_order :: "pystr option list \<Rightarrow> pystr option list"

text \<open>
  The mutable state: the global \<open>model_spend\<close>, the three tables (the embeddings
  newest first, as the similarity query orders them), the two result lists of
  \<open>process_ingest_batch\<close> and the log of requests.
\<close>

record state =
  model_spend :: "provider \<Rightarrow> real"
  listings :: "listing_row list"
  listing_embeddings :: "(nat \<times> real list) list"
  trusted_listings :: "trusted_row list"
  validated_ids :: "nat list"
  needs_human :: "nat list"
  events :: "event list"

definition add_spend :: "provider \<Rightarrow> real \<Rightarrow> state \<Rightarrow> state" where
  "add_spend p cost s = s \<lparr> model_spend := (model_spend s)(p := model_spend s p + cost) \<rparr>"

definition log_event :: "event \<Rightarrow> state \<Rightarrow> state" where
  "log_event e s = s \<lparr> events := events s @ [e] \<rparr>"


section \<open>Provider calls\<close>

text \<open>
  \<open>call_anthropic_validation\<close>: the result is the \<open>trust_score\<close> key of the returned
  dictionary. Without a client, on an exception and on an answer without JSON the
  default dictionary with 0.8 is returned; the spend is added after a parsed answer only.
\<close>

definition call_anthropic_validation ::
  "config \<Rightarrow> responses \<Rightarrow> state \<Rightarrow> trust_value option \<times> state" where
  "call_anthropic_validation cfg env s =
     (if \<not> anthropic_client cfg then (Some (Number (8 / 10)), s)
      else case anthropic_response env of
             Some result \<Rightarrow> (result, add_spend Anthropic (2 / 100) (log_event Anthropic_request s))
           | None \<Rightarrow> (Some (Number (8 / 10)), log_event Anthropic_request s))"

text \<open>
  \<open>call_perplexity_check\<close>: the budget check, then the request, then one per-call cost
  after a parsed answer. The result is whether an assessment came back.
\<close>

definition call_perplexity_check :: "config \<Rightarrow> responses \<Rightarrow> state \<Rightarrow> bool \<times> state" where
  "call_perplexity_check cfg env s =
     (if DAILY_PERPLEXITY_BUDGET cfg \<le> model_spend s Perplexity then (False, s)
      else if perplexity_response env
           then (True, add_spend Perplexity (3 / 100) (log_event Perplexity_request s))
           else (False, log_event Perplexity_request s))"

text \<open>\<open>int(x)\<close> on a float truncates towards zero.\<close>

definition py_trunc :: "real \<Rightarrow> int" where
  "py_trunc x = (if 0 \<le> x then \<lfloor>x\<rfloor> else \<lceil>x\<rceil>)"

text \<open>
  The fallback dictionary of \<open>call_gpt5_finalize\<close>; \<open>floor\<close> is the bound of the
  comparison \<open>price > floor\<close> (0 without a client, 50000 after a failed call).
  \<open>normalized.get("price", 0)\<close> is \<open>None\<close> for a listing whose price is null, and the
  comparison of \<open>None\<close> with a number raises a \<open>TypeError\<close>.
\<close>

definition fallback_decision :: "int \<Rightarrow> normalized \<Rightarrow> py_error + final_decision" where
  "fallback_decision floor_price normalized =
     (case n_price normalized of
        None \<Rightarrow> Inl TypeError
      | Some price \<Rightarrow>
          Inr \<lparr> approve = (floor_price < int price),
                final_price_band = Some \<lparr> low = py_trunc (real price * (95 / 100)), median = int price,
                                          high = py_trunc (real price * (105 / 100)),
                                          band_confidence = 7 / 10 \<rparr>,
                final_trust_score = Some (75 / 100) \<rparr>)"

definition call_gpt5_finalize ::
  "config \<Rightarrow> responses \<Rightarrow> normalized \<Rightarrow> nat list \<Rightarrow> state \<Rightarrow> py_error + (final_decision \<times> state)" where
  "call_gpt5_finalize cfg env normalized similar_list s =
     (if \<not> openai_client cfg
      then (case fallback_decision 0 normalized of
              Inl e \<Rightarrow> Inl e | Inr d \<Rightarrow> Inr (d, s))
      else case gpt5_response env of
             Some result \<Rightarrow> Inr (result, add_spend Gpt5 (5 / 100) (log_event Chat_request s))
           | None \<Rightarrow> (case fallback_decision 50000 normalized of
                        Inl e \<Rightarrow> Inl e | Inr d \<Rightarrow> Inr (d, log_event Chat_request s)))"

text \<open>
  \<open>get_embedding\<close>: the zero vector without a client, for an empty text and after an
  exception; otherwise the provider's vector, and its cost goes to the \<open>gpt5\<close> counter.
\<close>

definition get_embedding :: "config \<Rightarrow> responses \<Rightarrow> pystr \<Rightarrow> state \<Rightarrow> real list \<times> state" where
  "get_embedding cfg env text s =
     (if \<not> openai_client cfg \<or> text = [] then (replicate 1536 0, s)
      else case embedding_response env of
             Some embedding \<Rightarrow> (embedding, add_spend Gpt5 (1 / 10000) (log_event Embedding_request s))
           | None \<Rightarrow> (replicate 1536 0, log_event Embedding_request s))"

section \<open>Persistence and deduplication\<close>

definition same_key :: "pystr \<Rightarrow> pystr \<Rightarrow> pystr \<Rightarrow> listing_row \<Rightarrow> bool" where
  "same_key src sid ts r = (row_source r = src \<and> row_source_id r = sid \<and> row_batch_ts r = ts)"

text \<open>The identifier the store gives a new row: one not in the table.\<close>

definition fresh_id :: "listing_row list \<Rightarrow> nat" where
  "fresh_id rows = Suc (foldr max (map row_id rows) 0)"

text \<open>
  \<open>save_cached_listing\<close>: \<open>INSERT ... ON CONFLICT (source, source_id, ingest_batch_ts)
  DO UPDATE SET normalized, raw, confidence ... RETURNING id\<close>.
\<close>

definition save_cached_listing ::
  "listing_row list \<Rightarrow> raw_item \<Rightarrow> normalized \<Rightarrow> real \<Rightarrow> pystr \<Rightarrow> listing_row list \<times> nat" where
  "save_cached_listing rows raw_item normalized confidence batch_ts =
     (case find (same_key (rw_source raw_item) (rw_source_id raw_item) batch_ts) rows of
        Some r \<Rightarrow>
          (map (\<lambda>r'. if same_key (rw_source raw_item) (rw_source_id raw_item) batch_ts r'
                     then r' \<lparr> row_normalized := normalized, row_raw := raw_item,
                               row_confidence := confidence \<rparr>
                     else r') rows,
           row_id r)
      | None \<Rightarrow>
          (rows @ [\<lparr> row_id = fresh_id rows, row_source = rw_source raw_item,
                     row_source_id = rw_source_id raw_item, row_batch_ts = batch_ts,
                     row_normalized = normalized, row_raw = raw_item, row_status = Raw,
                     row_confidence = confidence, row_trust_score = None \<rparr>],
           fresh_id rows))"

definition save_embedding :: "nat \<Rightarrow> real list \<Rightarrow> state \<Rightarrow> state" where
  "save_embedding listing_id vector s =
     s \<lparr> listing_embeddings := (listing_id, vector) # listing_embeddings s \<rparr>"

text \<open>
  The floating-point values and operations of the similarity scan. The vectors hold
  finite floats; a product, a sum, a power and a quotient of floats are what binary64
  and the interpreter make of them, and the model takes them as parameters:
  \<open>fmul\<close> is \<open>a * b\<close>, \<open>fsum\<close> is \<open>sum(...)\<close> of a non-empty sequence of floats,
  \<open>fpow_half\<close> is \<open>x ** 0.5\<close> and \<open>fdiv\<close> is \<open>a / b\<close> for a divisor other than zero.
\<close>

datatype fval = Fin real | PInf | NInf | NaN

record float_ops =
  fmul :: "fval \<Rightarrow> fval \<Rightarrow> fval"
  fsum :: "fval list \<Rightarrow> fval"
  fpow_half :: "fval \<Rightarrow> fval"
  fdiv :: "fval \<Rightarrow> fval \<Rightarrow> fval"

text \<open>\<open>x > y\<close> for a float \<open>x\<close> and a finite \<open>y\<close>; a comparison with NaN is false.\<close>

fun fgt :: "fval \<Rightarrow> real \<Rightarrow> bool" where
  "fgt (Fin x) y = (y < x)"
| "fgt PInf y = True"
| "fgt NInf y = False"
| "fgt NaN y = False"

text \<open>\<open>sum(...)\<close> starts from the integer 0, which it returns for an empty sequence.\<close>

definition py_sum :: "float_ops \<Rightarrow> fval list \<Rightarrow> fval" where
  "py_sum F xs = (if xs = [] then Fin 0 else fsum F xs)"

definition dot_product :: "float_ops \<Rightarrow> real list \<Rightarrow> real list \<Rightarrow> fval" where
  "dot_product F u v = py_sum F (map (\<lambda>(a, b). fmul F (Fin a) (Fin b)) (zip u v))"

definition magnitude :: "float_ops \<Rightarrow> real list \<Rightarrow> fval" where
  "magnitude F v = fpow_half F (py_sum F (map (\<lambda>a. fmul F (Fin a) (Fin a)) v))"

text \<open>The quotient of the scan; a product of the magnitudes that is zero raises.\<close>

definition similarity :: "float_ops \<Rightarrow> real list \<Rightarrow> real list \<Rightarrow> py_error + fval" where
  "similarity F u v =
     (let d = fmul F (magnitude F u) (magnitude F v)
      in if d = Fin 0 then Inl ZeroDivisionError else Inr (fdiv F (dot_product F u v) d))"

text \<open>The test of one stored row in the scan of \<open>find_similar_by_embedding\<close>.\<close>

definition flagged :: "float_ops \<Rightarrow> real list \<Rightarrow> real \<Rightarrow> real list \<Rightarrow> py_error + bool" where
  "flagged F current_vector threshold stored_vector =
     (if length stored_vector = length current_vector
      then if fgt (magnitude F current_vector) 0 \<and> fgt (magnitude F stored_vector) 0
           then (case similarity F current_vector stored_vector of
                   Inl e \<Rightarrow> Inl e
                 | Inr x \<Rightarrow> Inr (fgt x threshold))
           else Inr False
      else Inr False)"

text \<open>
  The scan of the 100 newest rows; an exception in the scan is caught, and the result
  is then the empty list.
\<close>

definition find_similar_by_embedding ::
  "float_ops \<Rightarrow> (nat \<times> real list) list \<Rightarrow> real list \<Rightarrow> real \<Rightarrow> nat list" where
  "find_similar_by_embedding F rows vector threshold =
     (if list_ex (\<lambda>row. isl (flagged F vector threshold (snd row))) (take 100 rows) then []
      else take 5 (map fst (filter (\<lambda>row. flagged F vector threshold (snd row) = Inr True)
                              (take 100 rows))))"

section \<open>Image caching\<close>

definition file_scheme :: pystr where
  "file_scheme = [102, 105, 108, 101, 58, 47, 47]"

text \<open>
  \<open>upload_to_cdn\<close>: the presigned URL without its query after two successful requests,
  the \<open>file://\<close> reference to the local path in every other case.
\<close>

definition upload_to_cdn :: "responses \<Rightarrow> pystr \<Rightarrow> pystr" where
  "upload_to_cdn env local_path =
     (case upload_result env local_path of
        Some upload_url \<Rightarrow> takeWhile (\<lambda>c. c \<noteq> 63) upload_url
      | None \<Rightarrow> file_scheme @ local_path)"

text \<open>
  The image block of the loop: a download for each of the first five images, then an
  upload for every future that returned a path.
\<close>

definition downloaded :: "responses \<Rightarrow> pystr list \<Rightarrow> pystr list" where
  "downloaded env images =
     List.map_filter (\<lambda>r. if truthy r then r else None)
       (completion_order env (map (download_result env) (take 5 images)))"

definition cache_images :: "responses \<Rightarrow> pystr list \<Rightarrow> pystr list" where
  "cache_images env images =
     (if images = [] then [] else map (upload_to_cdn env) (downloaded env images))"


section \<open>The per-listing loop of \<open>process_ingest_batch\<close>\<close>

text \<open>\<open>not normalized.get("price") or not normalized.get("images")\<close>.\<close>

definition missing_critical :: "normalized \<Rightarrow> bool" where
  "missing_critical normalized =
     ((case n_price normalized of None \<Rightarrow> True | Some p \<Rightarrow> p = 0) \<or> n_images normalized = [])"

definition set_status ::
  "nat \<Rightarrow> status \<Rightarrow> trust_value option \<Rightarrow> listing_row list \<Rightarrow> listing_row list" where
  "set_status listing_id st trust rows =
     map (\<lambda>r. if row_id r = listing_id
              then r \<lparr> row_status := st,
                       row_trust_score := (case trust of None \<Rightarrow> row_trust_score r | Some t \<Rightarrow> Some t) \<rparr>
              else r) rows"

text \<open>\<open>str(normalized.get(k, ""))\<close>: the key is always there, and \<open>str(None)\<close> is \<open>None\<close>.\<close>

definition py_str :: "pystr option \<Rightarrow> pystr" where
  "py_str v = (case v of None \<Rightarrow> [78, 111, 110, 101] | Some t \<Rightarrow> t)"

definition text_for_embed :: "normalized \<Rightarrow> pystr" where
  "text_for_embed normalized =
     py_str (n_title normalized) @ [32] @ py_str (n_make normalized) @ [32]
     @ py_str (n_model normalized) @ [32] @ py_str (n_year normalized) @ [32]
     @ py_str (n_city normalized)"

text \<open>
  Trust evaluation: the validation provider for a price at the threshold or a
  confidence below 0.85, the fixed 0.9 otherwise. \<open>val.get("trust_score", 0.0)\<close> reads a
  missing key as 0 and returns whatever value the key has: nothing checks that it is a
  number.
\<close>

definition evaluate_trust ::
  "config \<Rightarrow> responses \<Rightarrow> nat \<Rightarrow> real \<Rightarrow> state \<Rightarrow> trust_value \<times> state" where
  "evaluate_trust cfg env price confidence s =
     (if GPT5_PRICE_THRESHOLD cfg \<le> int price \<or> confidence < 85 / 100
      then (case call_anthropic_validation cfg env s of
              (val, s') \<Rightarrow> ((case val of None \<Rightarrow> Number 0 | Some t \<Rightarrow> t), s'))
      else (Number (9 / 10), s))"

text \<open>
  The anomaly check: \<open>median\<close> is the price itself (the placeholder of the source), and
  the result of the provider is not used afterwards.
\<close>

definition selective_perplexity :: "config \<Rightarrow> responses \<Rightarrow> nat \<Rightarrow> state \<Rightarrow> state" where
  "selective_perplexity cfg env price s =
     (let median = price in
      if median \<noteq> 0
         \<and> PRICE_ANOMALY_PCT cfg < \<bar>real price - real median\<bar> / real (max 1 median) * 100
      then snd (call_perplexity_check cfg env s)
      else s)"

definition default_decision :: "nat \<Rightarrow> real \<Rightarrow> final_decision" where
  "default_decision price trust_score =
     \<lparr> approve = True,
       final_price_band = Some \<lparr> low = py_trunc (real price * (95 / 100)), median = int price,
                                 high = py_trunc (real price * (105 / 100)),
                                 band_confidence = 7 / 10 \<rparr>,
       final_trust_score = Some (min (85 / 100) trust_score) \<rparr>"

definition needs_final :: "config \<Rightarrow> nat \<Rightarrow> real \<Rightarrow> nat list \<Rightarrow> bool" where
  "needs_final cfg price trust_score similar =
     (GPT5_PRICE_THRESHOLD cfg \<le> int price \<or> trust_score < TRUST_SCORE_PUBLISH cfg
      \<or> 0 < length similar)"

text \<open>
  The block \<open>final GPT-5 (selective)\<close> for a trust score that is a number: the call and a
  second 0.05 on the counter, or the synthesized decision.
\<close>

definition finalize_selective ::
  "config \<Rightarrow> responses \<Rightarrow> normalized \<Rightarrow> nat \<Rightarrow> real \<Rightarrow> nat list \<Rightarrow> state
     \<Rightarrow> py_error + (final_decision \<times> state)" where
  "finalize_selective cfg env normalized price trust_score similar s =
     (if needs_final cfg price trust_score similar \<and> model_spend s Gpt5 < DAILY_GPT5_BUDGET cfg
      then (case call_gpt5_finalize cfg env normalized similar (log_event Finalize_call s) of
              Inl e \<Rightarrow> Inl e
            | Inr (final, s') \<Rightarrow> Inr (final, add_spend Gpt5 (5 / 100) s'))
      else Inr (default_decision price trust_score, s))"

text \<open>
  The last block for a trust score that is a number: a row in \<open>trusted_listings\<close> and
  \<open>published\<close>, or \<open>needs_review\<close>.
\<close>

definition update_final_status ::
  "config \<Rightarrow> nat \<Rightarrow> raw_item \<Rightarrow> normalized \<Rightarrow> final_decision \<Rightarrow> real \<Rightarrow> pystr list
     \<Rightarrow> state \<Rightarrow> state" where
  "update_final_status cfg listing_db_id raw normalized final trust_score cached s =
     (if approve final \<and> TRUST_SCORE_PUBLISH cfg \<le> trust_score
      then s \<lparr> trusted_listings := trusted_listings s @
                  [\<lparr> canonical = normalized, canonical_price_band = final_price_band final,
                     cached_images = cached,
                     trusted_trust_score =
                       (case final_trust_score final of None \<Rightarrow> trust_score | Some t \<Rightarrow> t),
                     source_list = [rw_source raw] \<rparr>],
               listings := set_status listing_db_id Published (Some (Number trust_score)) (listings s),
               validated_ids := validated_ids s @ [listing_db_id] \<rparr>
      else s \<lparr> listings := set_status listing_db_id Needs_review (Some (Number trust_score))
                            (listings s) \<rparr>)"

type_synonym saved_mapping = "nat \<times> raw_item \<times> normalized \<times> real"

text \<open>The row of a listing as the loop reads it again, or the values of the tuple.\<close>

definition reload :: "state \<Rightarrow> saved_mapping \<Rightarrow> normalized \<times> real" where
  "reload s m =
     (case m of (listing_db_id, raw, normalized, confidence) \<Rightarrow>
        (case find (\<lambda>r. row_id r = listing_db_id) (listings s) of
           Some row \<Rightarrow> (row_normalized row, row_confidence row)
         | None \<Rightarrow> (normalized, confidence)))"

text \<open>The stages between the gate and the decision: trust, anomaly check, embedding, dedupe.\<close>

definition analyse ::
  "float_ops \<Rightarrow> config \<Rightarrow> responses \<Rightarrow> nat \<Rightarrow> normalized \<Rightarrow> real \<Rightarrow> state
     \<Rightarrow> trust_value \<times> nat list \<times> state" where
  "analyse F cfg env listing_db_id normalized confidence s =
     (let price = (case n_price normalized of None \<Rightarrow> 0 | Some p \<Rightarrow> p);
          (trust_score, s1) = evaluate_trust cfg env price confidence s;
          s2 = selective_perplexity cfg env price s1;
          (emb, s3) = get_embedding cfg env (text_for_embed normalized) s2;
          s4 = save_embedding listing_db_id emb s3;
          similar = find_similar_by_embedding F (listing_embeddings s4) emb (DEDUPE_SIMILARITY cfg)
      in (trust_score, similar, s4))"

text \<open>
  The result of a listing and of the loop: the exception that ended it, if any, and the
  state it leaves. The statements of the store are committed one by one and the counters
  are globals, so what was written before an exception stays.
\<close>

type_synonym outcome = "py_error option \<times> state"

text \<open>Lines 734 to 792 for a trust score that is a number.\<close>

definition finish_numeric ::
  "config \<Rightarrow> responses \<Rightarrow> nat \<Rightarrow> raw_item \<Rightarrow> normalized \<Rightarrow> real \<Rightarrow> nat list \<Rightarrow> state
     \<Rightarrow> outcome" where
  "finish_numeric cfg env listing_db_id raw normalized trust_score similar s4 =
     (case finalize_selective cfg env normalized
             (case n_price normalized of None \<Rightarrow> 0 | Some p \<Rightarrow> p) trust_score similar s4 of
        Inl e \<Rightarrow> (Some e, s4)
      | Inr (final, s5) \<Rightarrow>
          (None, update_final_status cfg listing_db_id raw normalized final trust_score
                   (cache_images env (n_images normalized)) s5))"

text \<open>
  The same lines for a trust score that is not a number. In \<open>needs_final\<close> the
  comparison \<open>trust_score < TRUST_SCORE_PUBLISH\<close> is evaluated, and raises, unless the
  price has reached the threshold; \<open>min(0.85, trust_score)\<close> raises when the call is
  skipped; after the call \<open>trust_score >= TRUST_SCORE_PUBLISH\<close> raises when the
  decision approves, and otherwise the listing goes to \<open>needs_review\<close> with the value
  as its trust score.
\<close>

definition finish_non_numeric ::
  "config \<Rightarrow> responses \<Rightarrow> nat \<Rightarrow> normalized \<Rightarrow> nat list \<Rightarrow> state \<Rightarrow> outcome" where
  "finish_non_numeric cfg env listing_db_id normalized similar s4 =
     (if \<not> GPT5_PRICE_THRESHOLD cfg \<le> int (case n_price normalized of None \<Rightarrow> 0 | Some p \<Rightarrow> p)
      then (Some TypeError, s4)
      else if model_spend s4 Gpt5 < DAILY_GPT5_BUDGET cfg
      then (case call_gpt5_finalize cfg env normalized similar (log_event Finalize_call s4) of
              Inl e \<Rightarrow> (Some e, s4)
            | Inr (final, s') \<Rightarrow>
                (let s5 = add_spend Gpt5 (5 / 100) s'
                 in if approve final then (Some TypeError, s5)
                    else (None, s5 \<lparr> listings := set_status listing_db_id Needs_review
                                                    (Some NonNumeric) (listings s5) \<rparr>)))
      else (Some TypeError, s4))"

text \<open>One pass of the loop body.\<close>

definition process_listing ::
  "float_ops \<Rightarrow> config \<Rightarrow> responses \<Rightarrow> saved_mapping \<Rightarrow> state \<Rightarrow> outcome" where
  "process_listing F cfg env m s =
     (case m of (listing_db_id, raw, normalized0, confidence0) \<Rightarrow>
        (case reload s m of (normalized, confidence) \<Rightarrow>
           if missing_critical normalized
           then (None, s \<lparr> needs_human := needs_human s @ [listing_db_id],
                            listings := set_status listing_db_id Needs_human None (listings s) \<rparr>)
           else
             (case analyse F cfg env listing_db_id normalized confidence s of
                (trust_score, similar, s4) \<Rightarrow>
                  (case trust_score of
                     Number t \<Rightarrow> finish_numeric cfg env listing_db_id raw normalized t similar s4
                   | NonNumeric \<Rightarrow> finish_non_numeric cfg env listing_db_id normalized similar s4))))"

text \<open>
  The loop over \<open>saved_mappings\<close>. There is no handler inside the loop: an exception
  ends the batch, and the listings after it are not visited.
\<close>

fun process_saved ::
  "float_ops \<Rightarrow> config \<Rightarrow> (saved_mapping \<times> responses) list \<Rightarrow> state \<Rightarrow> outcome" where
  "process_saved F cfg [] s = (None, s)"
| "process_saved F cfg ((m, env) # rest) s =
     (case process_listing F cfg env m s of
        (Some e, s') \<Rightarrow> (Some e, s')
      | (None, s') \<Rightarrow> process_saved F cfg rest s')"

text \<open>Sample inputs for the examples.\<close>

definition initial_state :: state where
  "initial_state =
     \<lparr> model_spend = (\<lambda>p. 0), listings = [], listing_embeddings = [], trusted_listings = [],
       validated_ids = [], needs_human = [], events = [] \<rparr>"

definition silent :: responses where
  "silent =
     \<lparr> anthropic_response = None, perplexity_response = False, embedding_response = None,
       gpt5_response = None, download_result = (\<lambda>url. None), upload_result = (\<lambda>path. None),
       completion_order = (\<lambda>futures. futures) \<rparr>"

definition image_url :: pystr where
  "image_url = [104, 116, 116, 112, 58, 47, 47, 97, 47, 49, 46, 106, 112, 103]"

definition listing_with :: "nat option \<Rightarrow> pystr list \<Rightarrow> normalized" where
  "listing_with price images =
     \<lparr> n_title = None, n_price = price, n_make = None, n_model = None, n_year = None,
       n_mileage = None, n_city = None, n_images = images, n_contact = None \<rparr>"

definition no_openai :: config where
  "no_openai = default_config \<lparr> openai_client := False \<rparr>"

definition at_cap :: state where
  "at_cap = initial_state \<lparr> model_spend := (\<lambda>p. 0)(Gpt5 := 50) \<rparr>"

definition sample_raw :: raw_item where
  "sample_raw =
     \<lparr> rw_extracted = no_fields, rw_title = None, rw_price = None, rw_city = None,
       rw_images = None, rw_contact = None,
       rw_source = [79, 76, 88], rw_source_id = [79, 76, 88, 45, 49], rw_raw_html = [] \<rparr>"

definition batch_ts :: pystr where
  "batch_ts = [50, 48, 50, 53]"

text \<open>The identity key of a row, on which the table is unique.\<close>

definition row_key :: "listing_row \<Rightarrow> pystr \<times> pystr \<times> pystr" where
  "row_key r = (row_source r, row_source_id r, row_batch_ts r)"

definition local_path :: pystr where
  "local_path = [47, 116, 109, 112, 47, 49, 46, 106, 112, 103]"

text \<open>Every download succeeds and every upload fails.\<close>

definition upload_fails :: responses where
  "upload_fails = silent \<lparr> download_result := (\<lambda>url. Some local_path) \<rparr>"

text \<open>What of the final state tells the fate of the listings: the table, the result lists, the counters.\<close>

definition listing_outcome ::
  "outcome \<Rightarrow> py_error option \<times> listing_row list \<times> nat list \<times> nat list \<times> (provider \<Rightarrow> real)" where
  "listing_outcome r =
     (fst r, listings (snd r), validated_ids (snd r), needs_human (snd r), model_spend (snd r))"

text \<open>
  Downloads succeed for \<open>image_url\<close> only, uploads succeed with a presigned URL
  \<open>http://c/1?s\<close>, and the futures complete in reverse order.
\<close>

definition presigned_url :: pystr where
  "presigned_url = [104, 116, 116, 112, 58, 47, 47, 99, 47, 49, 63, 115]"

definition mixed :: responses where
  "mixed = silent \<lparr> download_result := (\<lambda>url. if url = image_url then Some local_path else None),
                     upload_result := (\<lambda>path. Some presigned_url),
                     completion_order := rev \<rparr>"

definition seven_images :: "pystr list" where
  "seven_images = [image_url, [], image_url, image_url, image_url, image_url, image_url]"

text \<open>Observations on a state: the status of a listing and the number of logged calls.\<close>

definition status_of :: "nat \<Rightarrow> state \<Rightarrow> status option" where
  "status_of listing_id s = map_option row_status (find (\<lambda>r. row_id r = listing_id) (listings s))"

definition logged :: "event \<Rightarrow> state \<Rightarrow> nat" where
  "logged e s = length (filter (\<lambda>x. x = e) (events s))"

text \<open>
  A listing of 2,500,000 with one image, its row as the first phase stores it, and
  providers that all answer: trust 0.9, a one-dimensional embedding, an approval.
\<close>

definition big_listing :: normalized where
  "big_listing = listing_with (Some 2500000) [image_url]"

definition big_mapping :: saved_mapping where
  "big_mapping = (1, sample_raw, big_listing, 9 / 10)"

definition start :: state where
  "start = initial_state
     \<lparr> listings := [\<lparr> row_id = 1, row_source = rw_source sample_raw,
                       row_source_id = rw_source_id sample_raw, row_batch_ts = batch_ts,
                       row_normalized = big_listing, row_raw = sample_raw, row_status = Raw,
                       row_confidence = 9 / 10, row_trust_score = None \<rparr>] \<rparr>"

definition answering :: responses where
  "answering = silent
     \<lparr> anthropic_response := Some (Some (Number (9 / 10))),
       embedding_response := Some [1],
       gpt5_response := Some \<lparr> approve = True, final_price_band = None,
                                 final_trust_score = Some (9 / 10) \<rparr> \<rparr>"





text \<open>
  The arithmetic of the examples: exact on finite values. Binary64 gives the same
  results on the vectors of the examples, which hold the floats 0.0 and 1.0 only.
\<close>

fun exact_mul :: "fval \<Rightarrow> fval \<Rightarrow> fval" where
  "exact_mul (Fin x) (Fin y) = Fin (x * y)"
| "exact_mul x y = NaN"

fun exact_add :: "fval \<Rightarrow> fval \<Rightarrow> fval" where
  "exact_add (Fin x) (Fin y) = Fin (x + y)"
| "exact_add x y = NaN"

fun exact_pow_half :: "fval \<Rightarrow> fval" where
  "exact_pow_half (Fin x) = Fin (sqrt x)"
| "exact_pow_half x = NaN"

fun exact_div :: "fval \<Rightarrow> fval \<Rightarrow> fval" where
  "exact_div (Fin x) (Fin y) = Fin (x / y)"
| "exact_div x y = NaN"

definition exact_ops :: float_ops where
  "exact_ops = \<lparr> fmul = exact_mul, fsum = foldl exact_add (Fin 0), fpow_half = exact_pow_half,
                  fdiv = exact_div \<rparr>"

text \<open>A stored row of another listing of the same source and batch.\<close>

definition other_row :: listing_row where
  "other_row =
     \<lparr> row_id = 5, row_source = rw_source sample_raw, row_source_id = [79, 76, 88, 45, 50],
       row_batch_ts = batch_ts, row_normalized = listing_with (Some 300000) [image_url],
       row_raw = sample_raw \<lparr> rw_source_id := [79, 76, 88, 45, 50] \<rparr>, row_status = Published,
       row_confidence = 9 / 10, row_trust_score = Some (Number (9 / 10)) \<rparr>"

text \<open>
  A listing of 100,000 with one image and confidence 0.9: its price is below the
  threshold and its trust score is the fixed 0.9. Its row is the only one of the table,
  and no embedding is stored.
\<close>

definition cheap_listing :: normalized where
  "cheap_listing = listing_with (Some 100000) [image_url]"

definition cheap_mapping :: saved_mapping where
  "cheap_mapping = (1, sample_raw, cheap_listing, 9 / 10)"

definition cheap_start :: state where
  "cheap_start = initial_state
     \<lparr> listings := [\<lparr> row_id = 1, row_source = rw_source sample_raw,
                       row_source_id = rw_source_id sample_raw, row_batch_ts = batch_ts,
                       row_normalized = cheap_listing, row_raw = sample_raw, row_status = Raw,
                       row_confidence = 9 / 10, row_trust_score = None \<rparr>] \<rparr>"







text \<open>
  A sequence of calls of \<open>call_perplexity_check\<close>, and the counter of a provider in the
  state a run of the loop leaves.
\<close>

definition perplexity_calls :: "config \<Rightarrow> responses list \<Rightarrow> state \<Rightarrow> state" where
  "perplexity_calls cfg envs s = fold (\<lambda>env s. snd (call_perplexity_check cfg env s)) envs s"

definition spend_after :: "provider \<Rightarrow> outcome \<Rightarrow> real" where
  "spend_after p r = model_spend (snd r) p"


section \<open>Properties of the Normalizer\<close>

lemma parse_price_penalty: "snd (parse_price R v) = (if fst (parse_price R v) = None then 4 / 10 else 0)"
  by (simp add: parse_price_def split: option.splits)

lemma normalize_item_unfold:
  "normalize_item R raw =
     (\<lparr> n_title = py_or (py_or (ex_title (rw_extracted raw)) (rw_title raw)) (ex_name (rw_extracted raw)),
        n_price = fst (parse_price R (price_value raw)),
        n_make = py_or (ex_make (rw_extracted raw)) (ex_brand (rw_extracted raw)),
        n_model = ex_model (rw_extracted raw),
        n_year = ex_year (rw_extracted raw), n_mileage = ex_mileage (rw_extracted raw),
        n_city = py_or (ex_city (rw_extracted raw)) (rw_city raw),
        n_images = (case py_or (ex_images (rw_extracted raw)) (rw_images raw) of None \<Rightarrow> [] | Some l \<Rightarrow> l),
        n_contact = py_or (ex_contact (rw_extracted raw)) (rw_contact raw) \<rparr>,
      max 0 (min 1 (9 / 10 - snd (parse_price R (price_value raw))
        - (if (case py_or (ex_images (rw_extracted raw)) (rw_images raw) of None \<Rightarrow> [] | Some l \<Rightarrow> l) = []
           then 3 / 10 else 0)
        - (if truthy (py_or (ex_contact (rw_extracted raw)) (rw_contact raw)) then 0 else 2 / 10))))"
  unfolding normalize_item_def Let_def
  by (cases "parse_price R (price_value raw)") simp

lemma clamp_bounds:
  fixes a b c :: real
  assumes "0 \<le> a" "0 \<le> b" "0 \<le> c"
  shows "0 \<le> max 0 (min 1 (9 / 10 - a - b - c))"
    and "max 0 (min 1 (9 / 10 - a - b - c)) \<le> 1"
    and "max 0 (min 1 (9 / 10 - a - b - c)) \<le> 9 / 10"
  using assms by linarith+

lemma confidence_formula:
  "snd (normalize_item R raw) =
     max 0 (min 1 (9 / 10
        - (if n_price (fst (normalize_item R raw)) = None then 4 / 10 else 0)
        - (if n_images (fst (normalize_item R raw)) = [] then 3 / 10 else 0)
        - (if truthy (n_contact (fst (normalize_item R raw))) then 0 else 2 / 10)))"
  by (simp only: normalize_item_unfold fst_conv snd_conv normalized.simps parse_price_penalty)

lemma py_or_cases:
  "py_or a b = (case a of Some (x # xs) \<Rightarrow> Some (x # xs) | _ \<Rightarrow> b)"
  by (cases a; cases "the a") (simp_all add: py_or_def)

text \<open>
  Claim C6. For every raw item the confidence returned by \<open>normalize_item\<close> is the
  baseline 0.9 minus 0.4 for a missing price, 0.3 for missing images and 0.2 for a
  missing contact, clamped to the unit interval; it lies in \<open>[0, 1]\<close> and is at most 0.9.
  The three fields are those of the normalized listing, and they are missing exactly
  when the input gives none: the price is the number read from the first non-empty of
  the keys \<open>extracted.price\<close>, \<open>extracted.price_inr\<close> and \<open>price\<close> (null when there is
  none or it does not convert), the images and the contact are the first non-empty of
  the key in \<open>extracted\<close> and the key of the item.
\<close>

theorem normalize_item_confidence:
  "snd (normalize_item R raw) =
     max 0 (min 1 (9 / 10
        - (if n_price (fst (normalize_item R raw)) = None then 4 / 10 else 0)
        - (if n_images (fst (normalize_item R raw)) = [] then 3 / 10 else 0)
        - (if truthy (n_contact (fst (normalize_item R raw))) then 0 else 2 / 10)))
   \<and> n_price (fst (normalize_item R raw)) =
       (case (case ex_price (rw_extracted raw) of
                Some (x # xs) \<Rightarrow> Some (x # xs)
              | _ \<Rightarrow> (case ex_price_inr (rw_extracted raw) of
                        Some (x # xs) \<Rightarrow> Some (x # xs)
                      | _ \<Rightarrow> rw_price raw)) of
          None \<Rightarrow> None
        | Some s \<Rightarrow> py_int R (filter (isdigit R) s))
   \<and> n_images (fst (normalize_item R raw)) =
       (case ex_images (rw_extracted raw) of
          Some (x # xs) \<Rightarrow> x # xs
        | _ \<Rightarrow> (case rw_images raw of Some l \<Rightarrow> l | None \<Rightarrow> []))
   \<and> n_contact (fst (normalize_item R raw)) =
       (case ex_contact (rw_extracted raw) of
          Some (x # xs) \<Rightarrow> Some (x # xs)
        | _ \<Rightarrow> rw_contact raw)
   \<and> 0 \<le> snd (normalize_item R raw) \<and> snd (normalize_item R raw) \<le> 1
   \<and> snd (normalize_item R raw) \<le> 9 / 10"
proof -
  define a :: real where "a = (if n_price (fst (normalize_item R raw)) = None then 4 / 10 else 0)"
  define b :: real where "b = (if n_images (fst (normalize_item R raw)) = [] then 3 / 10 else 0)"
  define c :: real where "c = (if truthy (n_contact (fst (normalize_item R raw))) then 0 else 2 / 10)"
  have eq: "snd (normalize_item R raw) = max 0 (min 1 (9 / 10 - a - b - c))"
    unfolding a_def b_def c_def by (rule confidence_formula)
  have "0 \<le> a" "0 \<le> b" "0 \<le> c"
    by (simp_all add: a_def b_def c_def)
  from clamp_bounds [OF this] eq
  have bounds: "0 \<le> snd (normalize_item R raw)" "snd (normalize_item R raw) \<le> 1"
    "snd (normalize_item R raw) \<le> 9 / 10"
    by simp_all
  have price: "n_price (fst (normalize_item R raw)) =
       (case (case ex_price (rw_extracted raw) of
                Some (x # xs) \<Rightarrow> Some (x # xs)
              | _ \<Rightarrow> (case ex_price_inr (rw_extracted raw) of
                        Some (x # xs) \<Rightarrow> Some (x # xs)
                      | _ \<Rightarrow> rw_price raw)) of
          None \<Rightarrow> None
        | Some s \<Rightarrow> py_int R (filter (isdigit R) s))"
    unfolding normalize_item_unfold fst_conv normalized.simps price_value_def py_or_cases
    by (simp add: parse_price_def split: option.splits list.splits)
  have images: "n_images (fst (normalize_item R raw)) =
       (case ex_images (rw_extracted raw) of
          Some (x # xs) \<Rightarrow> x # xs
        | _ \<Rightarrow> (case rw_images raw of Some l \<Rightarrow> l | None \<Rightarrow> []))"
    unfolding normalize_item_unfold fst_conv normalized.simps py_or_cases
    by (simp split: option.splits list.splits)
  have contact: "n_contact (fst (normalize_item R raw)) =
       (case ex_contact (rw_extracted raw) of
          Some (x # xs) \<Rightarrow> Some (x # xs)
        | _ \<Rightarrow> rw_contact raw)"
    unfolding normalize_item_unfold fst_conv normalized.simps py_or_cases
    by (rule refl)
  from eq price images contact bounds show ?thesis
    unfolding a_def b_def c_def by (intro conjI)
qed

lemma scenario1_price_value: "price_value scenario1_raw = Some rupee_price"
  by (simp add: price_value_def scenario1_raw_def only_extracted_def no_fields_def py_or_def rupee_price_def)

lemma scenario1_digits: "filter (isdigit ascii_runtime) rupee_price = [52, 53, 48, 48, 48, 48]"
  by (simp add: ascii_runtime_def rupee_price_def)

lemma scenario1_int: "py_int ascii_runtime [52, 53, 48, 48, 48, 48] = Some 450000"
  by (simp add: py_int_def ascii_runtime_def)

lemma scenario1_parse: "parse_price ascii_runtime (Some rupee_price) = (Some 450000, 0)"
  by (simp add: parse_price_def scenario1_digits scenario1_int)


lemma scenario1_value:
  "normalize_item ascii_runtime scenario1_raw =
     (\<lparr> n_title = None, n_price = Some 450000, n_make = None, n_model = None,
        n_year = None, n_mileage = None, n_city = None, n_images = [], n_contact = None \<rparr>, 4 / 10)"
proof -
  have ex: "rw_extracted scenario1_raw = no_fields \<lparr> ex_price := Some rupee_price \<rparr>"
    and tl: "rw_title scenario1_raw = None" "rw_city scenario1_raw = None"
            "rw_images scenario1_raw = None" "rw_contact scenario1_raw = None"
    by (simp_all add: scenario1_raw_def only_extracted_def)
  show ?thesis
    unfolding normalize_item_unfold ex tl scenario1_price_value [unfolded ex] scenario1_parse
    by (simp add: no_fields_def py_or_def)
qed

text \<open>Scenario 1: the price text gives 450000; images and contact are missing.\<close>

theorem normalize_item_confidence_witness:
  "snd (normalize_item ascii_runtime scenario1_raw) = 4 / 10
   \<and> snd (normalize_item ascii_runtime scenario1_raw) \<le> 9 / 10
   \<and> n_price (fst (normalize_item ascii_runtime scenario1_raw)) = Some 450000
   \<and> n_images (fst (normalize_item ascii_runtime scenario1_raw)) = []"
  using normalize_item_confidence [of ascii_runtime scenario1_raw]
  unfolding scenario1_value by simp






section \<open>Properties of the Finalizer\<close>



text \<open>What the missing-field gate of the loop lets through has a price other than zero.\<close>

lemma not_missing_price: "\<not> missing_critical n \<Longrightarrow> \<exists>p. n_price n = Some p \<and> p \<noteq> 0"
  by (cases "n_price n") (auto simp: missing_critical_def)



text \<open>
  Called on a listing with a null price, which the loop never does, the function would
  not return a decision: \<open>normalized.get("price", 0)\<close> is \<open>None\<close> there, unlike
  \<open>normalized.get("price") or 0\<close> of the loop, and the comparison with 0 raises.
\<close>

lemma call_gpt5_finalize_null_price:
  "call_gpt5_finalize no_openai silent (listing_with None [image_url]) [] initial_state
     = Inl TypeError"
  by (simp add: call_gpt5_finalize_def fallback_decision_def listing_with_def no_openai_def
      default_config_def)




section \<open>Properties of the Deduplicator\<close>





lemma exact_unit:
  "magnitude exact_ops [1] = Fin 1" "dot_product exact_ops [1] [1] = Fin 1"
  "similarity exact_ops [1] [1] = Inr (Fin 1)"
  by (simp_all add: similarity_def magnitude_def dot_product_def py_sum_def exact_ops_def)





section \<open>Properties of the persistence layer\<close>

lemma find_map_preserved:
  assumes "\<And>x. P (f x) = P x"
  shows "find P (map f xs) = map_option f (find P xs)"
  using assms by (induction xs) auto

lemma find_append_None: "find P xs = None \<Longrightarrow> find P (xs @ [y]) = (if P y then Some y else None)"
  by (induction xs) (auto split: if_splits)

lemma save_existing:
  assumes "find (same_key (rw_source raw) (rw_source_id raw) ts) rows = Some r"
  shows "save_cached_listing rows raw n c ts =
           (map (\<lambda>r'. if same_key (rw_source raw) (rw_source_id raw) ts r'
                       then r' \<lparr> row_normalized := n, row_raw := raw, row_confidence := c \<rparr>
                       else r') rows, row_id r)"
  using assms by (simp add: save_cached_listing_def)

lemma same_key_update [simp]:
  "same_key a b ts (r \<lparr> row_normalized := n, row_raw := raw, row_confidence := c \<rparr>) = same_key a b ts r"
  by (simp add: same_key_def)

lemma saved_row_found:
  assumes "save_cached_listing rows raw n c ts = (rows1, id1)"
  shows "\<exists>r. find (same_key (rw_source raw) (rw_source_id raw) ts) rows1 = Some r \<and> row_id r = id1"
proof (cases "find (same_key (rw_source raw) (rw_source_id raw) ts) rows")
  case None
  with assms show ?thesis
    by (auto simp: save_cached_listing_def find_append_None same_key_def)
next
  case (Some r)
  let ?f = "\<lambda>r'. if same_key (rw_source raw) (rw_source_id raw) ts r'
                   then r' \<lparr> row_normalized := n, row_raw := raw, row_confidence := c \<rparr> else r'"
  have "find (same_key (rw_source raw) (rw_source_id raw) ts) (map ?f rows) =
          map_option ?f (find (same_key (rw_source raw) (rw_source_id raw) ts) rows)"
    by (rule find_map_preserved) simp
  with Some assms show ?thesis
    by (auto simp: save_existing)
qed

lemma update_twice:
  "map (\<lambda>r'. if same_key a b ts r'
              then r' \<lparr> row_normalized := n', row_raw := raw', row_confidence := c' \<rparr> else r')
     (map (\<lambda>r'. if same_key a b ts r'
              then r' \<lparr> row_normalized := n, row_raw := raw, row_confidence := c \<rparr> else r') rows)
   = map (\<lambda>r'. if same_key a b ts r'
              then r' \<lparr> row_normalized := n', row_raw := raw', row_confidence := c' \<rparr> else r') rows"
  by (induction rows) auto

lemma update_new_row:
  assumes "find (same_key a b ts) rows = None"
  shows "map (\<lambda>r'. if same_key a b ts r'
              then r' \<lparr> row_normalized := n', row_raw := raw', row_confidence := c' \<rparr> else r') rows
         = rows"
  using assms by (induction rows) (auto split: if_splits)


lemma same_key_row_key: "same_key a b ts r = (row_key r = (a, b, ts))"
  by (auto simp: same_key_def row_key_def)

lemma distinct_key_filter:
  "distinct (map row_key rows) \<Longrightarrow> length (filter (\<lambda>r. row_key r = k) rows) \<le> 1"
proof (induction rows)
  case Nil
  then show ?case by simp
next
  case (Cons r rows)
  show ?case
  proof (cases "row_key r = k")
    case True
    have "\<forall>x \<in> set rows. row_key x \<noteq> k"
    proof
      fix x assume "x \<in> set rows"
      then have "row_key x \<in> set (map row_key rows)" by simp
      with Cons.prems True show "row_key x \<noteq> k" by auto
    qed
    then have "filter (\<lambda>r. row_key r = k) rows = []" by (simp add: filter_empty_conv)
    with True show ?thesis by simp
  next
    case False
    with Cons show ?thesis by simp
  qed
qed

lemma find_Some_filter: "find P xs = Some x \<Longrightarrow> 1 \<le> length (filter P xs)"
  by (induction xs) (auto split: if_splits)

lemma save_keeps_keys_distinct:
  assumes "save_cached_listing rows raw n c ts = (rows1, id1)" "distinct (map row_key rows)"
  shows "distinct (map row_key rows1)"
proof (cases "find (same_key (rw_source raw) (rw_source_id raw) ts) rows")
  case None
  then have "\<forall>r \<in> set rows. row_key r \<noteq> (rw_source raw, rw_source_id raw, ts)"
    by (simp add: find_None_iff same_key_row_key)
  then have "(rw_source raw, rw_source_id raw, ts) \<notin> set (map row_key rows)"
    by force
  moreover from None assms(1)
  have "map row_key rows1 = map row_key rows @ [(rw_source raw, rw_source_id raw, ts)]"
    by (auto simp: save_cached_listing_def row_key_def)
  ultimately show ?thesis using assms(2) by simp
next
  case (Some r)
  have "map row_key (map (\<lambda>r'. if same_key (rw_source raw) (rw_source_id raw) ts r'
                   then r' \<lparr> row_normalized := n, row_raw := raw, row_confidence := c \<rparr> else r') rows)
        = map row_key rows"
    by (induction rows) (auto simp: row_key_def)
  with Some assms show ?thesis by (simp add: save_existing)
qed

lemma foldr_max_ge: "x \<in> set xs \<Longrightarrow> x \<le> foldr max xs (0 :: nat)"
  by (induction xs) auto

lemma fresh_id_new: "fresh_id rows \<notin> set (map row_id rows)"
proof
  assume "fresh_id rows \<in> set (map row_id rows)"
  then have "fresh_id rows \<le> foldr max (map row_id rows) 0" by (rule foldr_max_ge)
  then show False by (simp add: fresh_id_def)
qed

lemma save_new:
  assumes "find (same_key (rw_source raw) (rw_source_id raw) ts) rows = None"
  shows "save_cached_listing rows raw n c ts =
           (rows @ [\<lparr> row_id = fresh_id rows, row_source = rw_source raw,
                      row_source_id = rw_source_id raw, row_batch_ts = ts,
                      row_normalized = n, row_raw = raw, row_status = Raw,
                      row_confidence = c, row_trust_score = None \<rparr>], fresh_id rows)"
  using assms by (simp add: save_cached_listing_def)

lemma in_map_fixed: "x \<in> set xs \<Longrightarrow> f x = x \<Longrightarrow> x \<in> set (map f xs)"
  by force

lemma find_Some_set: "find P xs = Some x \<Longrightarrow> x \<in> set xs \<and> P x"
  by (induction xs) (auto split: if_splits)

text \<open>
  Claim C8. A save into a table that has no row of the key (source, source-local id,
  batch timestamp) appends one row with a new identifier and the status \<open>raw\<close>; a save
  into a table that has such a row rewrites the \<open>normalized\<close>, \<open>raw\<close> and \<open>confidence\<close>
  of that row where it stands and returns its identifier. So a second save with the
  same key returns the identifier of the first, adds no row, keeps every identifier and
  status and every row of another key, and leaves the values of the second call in the
  row of the key; with the same arguments it leaves the table as it is, and a table
  with unique keys holds exactly one row of that key afterwards.
\<close>

theorem save_cached_listing_upsert:
  assumes first: "save_cached_listing rows raw n c ts = (rows1, id1)"
      and key: "rw_source raw' = rw_source raw" "rw_source_id raw' = rw_source_id raw"
      and second: "save_cached_listing rows1 raw' n' c' ts = (rows2, id2)"
  shows "rows1 =
           (if list_ex (same_key (rw_source raw) (rw_source_id raw) ts) rows
            then map (\<lambda>r. if same_key (rw_source raw) (rw_source_id raw) ts r
                           then r \<lparr> row_normalized := n, row_raw := raw, row_confidence := c \<rparr>
                           else r) rows
            else rows @ [\<lparr> row_id = id1, row_source = rw_source raw,
                            row_source_id = rw_source_id raw, row_batch_ts = ts,
                            row_normalized = n, row_raw = raw, row_status = Raw,
                            row_confidence = c, row_trust_score = None \<rparr>])
       \<and> (if list_ex (same_key (rw_source raw) (rw_source_id raw) ts) rows
           then \<exists>r \<in> set rows. same_key (rw_source raw) (rw_source_id raw) ts r \<and> row_id r = id1
           else id1 \<notin> set (map row_id rows))
       \<and> rows2 = map (\<lambda>r. if same_key (rw_source raw) (rw_source_id raw) ts r
                           then r \<lparr> row_normalized := n', row_raw := raw', row_confidence := c' \<rparr>
                           else r) rows1
       \<and> id2 = id1 \<and> length rows2 = length rows1
       \<and> map row_id rows2 = map row_id rows1 \<and> map row_status rows2 = map row_status rows1
       \<and> (\<forall>r \<in> set rows2. same_key (rw_source raw) (rw_source_id raw) ts r \<longrightarrow>
             row_normalized r = n' \<and> row_raw r = raw' \<and> row_confidence r = c')
       \<and> (\<forall>r \<in> set rows. \<not> same_key (rw_source raw) (rw_source_id raw) ts r \<longrightarrow> r \<in> set rows2)
       \<and> (raw' = raw \<and> n' = n \<and> c' = c \<longrightarrow> rows2 = rows1)
       \<and> (distinct (map row_key rows) \<longrightarrow>
             length (filter (same_key (rw_source raw) (rw_source_id raw) ts) rows2) = 1)"
proof -
  let ?k = "same_key (rw_source raw) (rw_source_id raw) ts"
  let ?w = "\<lambda>r'. if ?k r' then r' \<lparr> row_normalized := n, row_raw := raw, row_confidence := c \<rparr>
                   else r'"
  let ?u = "\<lambda>r'. if ?k r' then r' \<lparr> row_normalized := n', row_raw := raw', row_confidence := c' \<rparr>
                   else r'"
  let ?new = "\<lparr> row_id = id1, row_source = rw_source raw,
                            row_source_id = rw_source_id raw, row_batch_ts = ts,
                            row_normalized = n, row_raw = raw, row_status = Raw,
                            row_confidence = c, row_trust_score = None \<rparr>"
  have ex: "list_ex ?k rows \<longleftrightarrow> find ?k rows \<noteq> None"
    by (auto simp: list_ex_iff find_None_iff)
  have r1: "rows1 = (if list_ex ?k rows then map ?w rows else rows @ [?new])"
    and i1: "if list_ex ?k rows then \<exists>r \<in> set rows. ?k r \<and> row_id r = id1
             else id1 \<notin> set (map row_id rows)"
  proof -
    show "rows1 = (if list_ex ?k rows then map ?w rows else rows @ [?new])"
    proof (cases "find ?k rows")
      case None
      from save_new [OF None, of n c] first None show ?thesis
        unfolding ex by simp
    next
      case (Some r0)
      from save_existing [OF Some, of n c] first Some show ?thesis
        unfolding ex by simp
    qed
    show "if list_ex ?k rows then \<exists>r \<in> set rows. ?k r \<and> row_id r = id1
             else id1 \<notin> set (map row_id rows)"
    proof (cases "find ?k rows")
      case None
      from save_new [OF None, of n c] first have "id1 = fresh_id rows" by simp
      with None fresh_id_new [of rows] show ?thesis
        unfolding ex by simp
    next
      case (Some r0)
      from save_existing [OF Some, of n c] first have "row_id r0 = id1" by simp
      with find_Some_set [OF Some] Some show ?thesis
        unfolding ex by auto
    qed
  qed
  from saved_row_found [OF first] obtain r where r: "find ?k rows1 = Some r" "row_id r = id1"
    by blast
  from r(1) key have "find (same_key (rw_source raw') (rw_source_id raw') ts) rows1 = Some r"
    by simp
  from save_existing [OF this, of n' c'] second key r(2)
  have eq: "rows2 = map ?u rows1" and id: "id2 = id1"
    by simp_all
  have ids: "map row_id (map ?u rows1) = map row_id rows1"
    by (induction rows1) simp_all
  have sts: "map row_status (map ?u rows1) = map row_status rows1"
    by (induction rows1) simp_all
  have vals: "\<forall>r \<in> set (map ?u rows1). ?k r \<longrightarrow>
             row_normalized r = n' \<and> row_raw r = raw' \<and> row_confidence r = c'"
  proof (intro ballI impI)
    fix x assume "x \<in> set (map ?u rows1)" and kx: "?k x"
    then obtain y where y: "x = ?u y" by (auto simp only: set_map image_iff)
    show "row_normalized x = n' \<and> row_raw x = raw' \<and> row_confidence x = c'"
    proof (cases "?k y")
      case True
      with y show ?thesis by simp
    next
      case False
      with y kx show ?thesis by simp
    qed
  qed
  have others: "\<forall>x \<in> set rows. \<not> ?k x \<longrightarrow> x \<in> set (map ?u rows1)"
  proof (intro ballI impI)
    fix x assume x: "x \<in> set rows" and nk: "\<not> ?k x"
    from nk have w: "?w x = x" and u: "?u x = x" by simp_all
    from x w have "x \<in> set (map ?w rows)" by (rule in_map_fixed)
    moreover from x have "x \<in> set (rows @ [?new])" by simp
    ultimately have "x \<in> set rows1" unfolding r1 by (rule if_split [THEN iffD2, OF conjI [OF impI impI]])
    then show "x \<in> set (map ?u rows1)" using u by (rule in_map_fixed)
  qed
  have idem: "map ?u rows1 = rows1" if same: "raw' = raw \<and> n' = n \<and> c' = c"
  proof (cases "find ?k rows")
    case None
    with first have rows1: "rows1 = rows @ [\<lparr> row_id = fresh_id rows, row_source = rw_source raw,
                     row_source_id = rw_source_id raw, row_batch_ts = ts,
                     row_normalized = n, row_raw = raw, row_status = Raw,
                     row_confidence = c, row_trust_score = None \<rparr>]"
      by (auto simp: save_cached_listing_def)
    from None have "map ?u rows = rows" by (rule update_new_row)
    then show ?thesis unfolding rows1 using same by (simp add: same_key_def)
  next
    case (Some r0)
    from save_existing [OF Some, of n c] first
    have "rows1 = map (\<lambda>r'. if ?k r'
                   then r' \<lparr> row_normalized := n, row_raw := raw, row_confidence := c \<rparr> else r') rows"
      by simp
    then show ?thesis using same by (simp only: update_twice)
  qed
  have one: "length (filter ?k (map ?u rows1)) = 1" if d: "distinct (map row_key rows)"
  proof -
    have "distinct (map row_key rows1)" by (rule save_keeps_keys_distinct [OF first d])
    then have "length (filter (\<lambda>r. row_key r = (rw_source raw, rw_source_id raw, ts)) rows1) \<le> 1"
      by (rule distinct_key_filter)
    moreover have "?k = (\<lambda>r. row_key r = (rw_source raw, rw_source_id raw, ts))"
      by (rule ext) (simp add: same_key_row_key)
    ultimately have "length (filter ?k rows1) \<le> 1" by simp
    moreover have "1 \<le> length (filter ?k rows1)" by (rule find_Some_filter [OF r(1)])
    moreover have "filter ?k (map ?u rows1) = map ?u (filter ?k rows1)"
      by (induction rows1) simp_all
    ultimately show ?thesis by simp
  qed
  show ?thesis
  proof (intro conjI impI)
    show "rows1 = (if list_ex ?k rows then map ?w rows else rows @ [?new])" by (rule r1)
    show "if list_ex ?k rows then \<exists>r \<in> set rows. ?k r \<and> row_id r = id1
             else id1 \<notin> set (map row_id rows)" by (rule i1)
    show "rows2 = map ?u rows1" by (rule eq)
    show "id2 = id1" by (rule id)
    show "length rows2 = length rows1" unfolding eq by (rule length_map)
    show "map row_id rows2 = map row_id rows1" unfolding eq by (rule ids)
    show "map row_status rows2 = map row_status rows1" unfolding eq by (rule sts)
    show "\<forall>r \<in> set rows2. ?k r \<longrightarrow>
             row_normalized r = n' \<and> row_raw r = raw' \<and> row_confidence r = c'"
      unfolding eq by (rule vals)
    show "\<forall>r \<in> set rows. \<not> ?k r \<longrightarrow> r \<in> set rows2" unfolding eq by (rule others)
    show "rows2 = rows1" if "raw' = raw \<and> n' = n \<and> c' = c"
      unfolding eq by (rule idem [OF that])
    show "length (filter ?k rows2) = 1" if "distinct (map row_key rows)"
      unfolding eq by (rule one [OF that])
  qed
qed

text \<open>
  A table with a row of another listing: the first save adds the row 6, the second,
  with another normalized listing and confidence, rewrites that row and nothing else.
\<close>

lemma other_first_save:
  "save_cached_listing [other_row] sample_raw (listing_with (Some 450000) []) (6 / 10) batch_ts =
     ([other_row,
       \<lparr> row_id = 6, row_source = rw_source sample_raw, row_source_id = rw_source_id sample_raw,
         row_batch_ts = batch_ts, row_normalized = listing_with (Some 450000) [],
         row_raw = sample_raw, row_status = Raw, row_confidence = 6 / 10,
         row_trust_score = None \<rparr>], 6)"
  by (simp add: save_cached_listing_def fresh_id_def other_row_def same_key_def sample_raw_def)

theorem save_cached_listing_upsert_witness:
  "save_cached_listing [other_row] sample_raw (listing_with (Some 450000) []) (6 / 10) batch_ts =
     ([other_row,
       \<lparr> row_id = 6, row_source = rw_source sample_raw, row_source_id = rw_source_id sample_raw,
         row_batch_ts = batch_ts, row_normalized = listing_with (Some 450000) [],
         row_raw = sample_raw, row_status = Raw, row_confidence = 6 / 10,
         row_trust_score = None \<rparr>], 6)
   \<and> save_cached_listing
        [other_row,
         \<lparr> row_id = 6, row_source = rw_source sample_raw, row_source_id = rw_source_id sample_raw,
           row_batch_ts = batch_ts, row_normalized = listing_with (Some 450000) [],
           row_raw = sample_raw, row_status = Raw, row_confidence = 6 / 10,
           row_trust_score = None \<rparr>]
        sample_raw (listing_with (Some 450000) [image_url]) (9 / 10) batch_ts =
     ([other_row,
       \<lparr> row_id = 6, row_source = rw_source sample_raw, row_source_id = rw_source_id sample_raw,
         row_batch_ts = batch_ts, row_normalized = listing_with (Some 450000) [image_url],
         row_raw = sample_raw, row_status = Raw, row_confidence = 9 / 10,
         row_trust_score = None \<rparr>], 6)"
proof -
  let ?new = "\<lparr> row_id = 6, row_source = rw_source sample_raw, row_source_id = rw_source_id sample_raw,
         row_batch_ts = batch_ts, row_normalized = listing_with (Some 450000) [],
         row_raw = sample_raw, row_status = Raw, row_confidence = 6 / 10,
         row_trust_score = None \<rparr>"
  obtain rows2 id2 where second:
    "save_cached_listing [other_row, ?new] sample_raw (listing_with (Some 450000) [image_url])
       (9 / 10) batch_ts = (rows2, id2)"
    by (rule prod.exhaust)
  from save_cached_listing_upsert [OF other_first_save refl refl second]
  have "id2 = 6"
    "rows2 = map (\<lambda>r. if same_key (rw_source sample_raw) (rw_source_id sample_raw) batch_ts r
                        then r \<lparr> row_normalized := listing_with (Some 450000) [image_url],
                                 row_raw := sample_raw, row_confidence := 9 / 10 \<rparr>
                        else r) [other_row, ?new]"
    by blast+
  then have "rows2 = [other_row, ?new \<lparr> row_normalized := listing_with (Some 450000) [image_url],
                                 row_raw := sample_raw, row_confidence := 9 / 10 \<rparr>]" "id2 = 6"
    by (simp_all add: same_key_def other_row_def sample_raw_def)
  with second other_first_save show ?thesis by simp
qed


section \<open>Properties of the asset pipeline\<close>

lemma length_map_filter_le: "length (List.map_filter f xs) \<le> length xs"
  by (induction xs) (auto simp: List.map_filter_simps split: option.splits)

lemma mset_map_filter:
  "mset (List.map_filter f xs) = image_mset (\<lambda>x. the (f x)) (filter_mset (\<lambda>x. f x \<noteq> None) (mset xs))"
  by (induction xs) (auto simp: List.map_filter_simps split: option.splits)

lemma mset_map_filter_cong:
  "mset xs = mset ys \<Longrightarrow> mset (List.map_filter f xs) = mset (List.map_filter f ys)"
  by (simp add: mset_map_filter)

lemma anthropic_images_independent:
  "call_anthropic_validation cfg (env \<lparr> download_result := d, upload_result := u, completion_order := co \<rparr>) s
     = call_anthropic_validation cfg env s"
  by (simp add: call_anthropic_validation_def)

lemma perplexity_images_independent:
  "call_perplexity_check cfg (env \<lparr> download_result := d, upload_result := u, completion_order := co \<rparr>) s
     = call_perplexity_check cfg env s"
  by (simp add: call_perplexity_check_def)

lemma embedding_images_independent:
  "get_embedding cfg (env \<lparr> download_result := d, upload_result := u, completion_order := co \<rparr>) t s
     = get_embedding cfg env t s"
  by (simp add: get_embedding_def)

lemma analyse_images_independent:
  "analyse F cfg (env \<lparr> download_result := d, upload_result := u, completion_order := co \<rparr>) i n c s
     = analyse F cfg env i n c s"
  unfolding analyse_def evaluate_trust_def selective_perplexity_def
    anthropic_images_independent perplexity_images_independent embedding_images_independent
  by (rule refl)

lemma call_gpt5_finalize_images_independent:
  "call_gpt5_finalize cfg (env \<lparr> download_result := d, upload_result := u, completion_order := co \<rparr>)
       n sim s = call_gpt5_finalize cfg env n sim s"
  by (simp add: call_gpt5_finalize_def)

lemma finalize_images_independent:
  "finalize_selective cfg (env \<lparr> download_result := d, upload_result := u, completion_order := co \<rparr>)
       n p t sim s
     = finalize_selective cfg env n p t sim s"
  unfolding finalize_selective_def call_gpt5_finalize_images_independent by (rule refl)

lemma update_final_status_outcome:
  "listing_outcome (None, update_final_status cfg i raw n final t cached s)
     = listing_outcome (None, update_final_status cfg i raw n final t cached' s)"
  by (simp add: listing_outcome_def update_final_status_def)

lemma finish_numeric_failed:
  assumes "finalize_selective cfg env n (case n_price n of None \<Rightarrow> 0 | Some p \<Rightarrow> p) t sim s4 = Inl e"
  shows "finish_numeric cfg env i raw n t sim s4 = (Some e, s4)"
  using assms by (simp add: finish_numeric_def)

lemma finish_numeric_passed:
  assumes "finalize_selective cfg env n (case n_price n of None \<Rightarrow> 0 | Some p \<Rightarrow> p) t sim s4
             = Inr (final, s5)"
  shows "finish_numeric cfg env i raw n t sim s4 =
           (None, update_final_status cfg i raw n final t (cache_images env (n_images n)) s5)"
  using assms by (simp add: finish_numeric_def)

lemma finish_numeric_images_independent:
  "listing_outcome (finish_numeric cfg
       (env \<lparr> download_result := d, upload_result := u, completion_order := co \<rparr>) i raw n t sim s4)
     = listing_outcome (finish_numeric cfg env i raw n t sim s4)"
proof -
  let ?env = "env \<lparr> download_result := d, upload_result := u, completion_order := co \<rparr>"
  show ?thesis
  proof (cases "finalize_selective cfg env n (case n_price n of None \<Rightarrow> 0 | Some p \<Rightarrow> p) t sim s4")
    case (Inl e)
    then have "finalize_selective cfg ?env n (case n_price n of None \<Rightarrow> 0 | Some p \<Rightarrow> p) t sim s4
                 = Inl e"
      by (simp only: finalize_images_independent)
    from finish_numeric_failed [OF this] finish_numeric_failed [OF Inl]
    show ?thesis by simp
  next
    case (Inr fs)
    obtain final s5 where fs: "fs = (final, s5)" by (cases fs) auto
    from Inr fs have f: "finalize_selective cfg env n (case n_price n of None \<Rightarrow> 0 | Some p \<Rightarrow> p)
                         t sim s4 = Inr (final, s5)" by simp
    then have f': "finalize_selective cfg ?env n (case n_price n of None \<Rightarrow> 0 | Some p \<Rightarrow> p)
                         t sim s4 = Inr (final, s5)"
      by (simp only: finalize_images_independent)
    show ?thesis
      unfolding finish_numeric_passed [OF f'] finish_numeric_passed [OF f]
      by (rule update_final_status_outcome)
  qed
qed

lemma finish_non_numeric_images_independent:
  "finish_non_numeric cfg
       (env \<lparr> download_result := d, upload_result := u, completion_order := co \<rparr>) i n sim s4
     = finish_non_numeric cfg env i n sim s4"
  unfolding finish_non_numeric_def call_gpt5_finalize_images_independent by (rule refl)

lemma process_listing_gated:
  assumes "reload s (i, raw, n0, c0) = (n, c)" "missing_critical n"
  shows "process_listing F cfg env (i, raw, n0, c0) s =
           (None, s \<lparr> needs_human := needs_human s @ [i],
                       listings := set_status i Needs_human None (listings s) \<rparr>)"
  using assms by (simp add: process_listing_def)

lemma process_listing_numeric:
  assumes "reload s (i, raw, n0, c0) = (n, c)" "\<not> missing_critical n"
    and "analyse F cfg env i n c s = (Number t, sim, s4)"
  shows "process_listing F cfg env (i, raw, n0, c0) s = finish_numeric cfg env i raw n t sim s4"
  using assms by (simp add: process_listing_def)

lemma process_listing_non_numeric:
  assumes "reload s (i, raw, n0, c0) = (n, c)" "\<not> missing_critical n"
    and "analyse F cfg env i n c s = (NonNumeric, sim, s4)"
  shows "process_listing F cfg env (i, raw, n0, c0) s = finish_non_numeric cfg env i n sim s4"
  using assms by (simp add: process_listing_def)

lemma process_listing_passed:
  assumes "reload s (i, raw, n0, c0) = (n, c)" "\<not> missing_critical n"
    and "analyse F cfg env i n c s = (Number t, sim, s4)"
    and "finalize_selective cfg env n (case n_price n of None \<Rightarrow> 0 | Some p \<Rightarrow> p) t sim s4
           = Inr (final, s5)"
  shows "process_listing F cfg env (i, raw, n0, c0) s =
           (None, update_final_status cfg i raw n final t (cache_images env (n_images n)) s5)"
  unfolding process_listing_numeric [OF assms(1-3)] by (rule finish_numeric_passed [OF assms(4)])

lemma process_listing_images_independent:
  "listing_outcome (process_listing F cfg
       (env \<lparr> download_result := d, upload_result := u, completion_order := co \<rparr>) m s)
     = listing_outcome (process_listing F cfg env m s)"
proof -
  let ?env = "env \<lparr> download_result := d, upload_result := u, completion_order := co \<rparr>"
  obtain i raw n0 c0 where m: "m = (i, raw, n0, c0)" by (cases m) auto
  obtain n c where rl: "reload s (i, raw, n0, c0) = (n, c)" by (rule prod.exhaust)
  show ?thesis
  proof (cases "missing_critical n")
    case True
    show ?thesis
      unfolding m process_listing_gated [OF rl True] by (rule refl)
  next
    case False
    obtain tv sim s4 where an: "analyse F cfg env i n c s = (tv, sim, s4)"
      by (rule prod_cases3)
    then have an': "analyse F cfg ?env i n c s = (tv, sim, s4)"
      by (simp only: analyse_images_independent)
    show ?thesis
    proof (cases tv)
      case (Number t)
      show ?thesis
        unfolding m process_listing_numeric [OF rl False an' [unfolded Number]]
          process_listing_numeric [OF rl False an [unfolded Number]]
        by (rule finish_numeric_images_independent)
    next
      case NonNumeric
      show ?thesis
        unfolding m process_listing_non_numeric [OF rl False an' [unfolded NonNumeric]]
          process_listing_non_numeric [OF rl False an [unfolded NonNumeric]]
          finish_non_numeric_images_independent
        by (rule refl)
    qed
  qed
qed

text \<open>
  An image that was downloaded and whose upload failed contributes the \<open>file://\<close>
  reference to its local file.
\<close>

theorem failed_upload_is_cached:
  "cache_images upload_fails [image_url] = [file_scheme @ local_path]"
  by (simp add: cache_images_def downloaded_def upload_fails_def silent_def upload_to_cdn_def
      List.map_filter_simps local_path_def)

lemma map_filter_map: "List.map_filter f (map g xs) = List.map_filter (\<lambda>x. f (g x)) xs"
  by (induction xs) (auto simp: List.map_filter_simps split: option.splits)

text \<open>
  Claim C9 (amended). At most five images of a listing are processed. Whatever the
  order of completion, the cached list holds one entry for each of the first five images
  whose download returned a path, and none for a failed download; the entry is the
  result of \<open>upload_to_cdn\<close>, which after a failed upload is the \<open>file://\<close> reference to the
  local file. Whether \<open>process_listing\<close> ends normally, and the statuses, result lists and
  counters after it, do not depend on the outcome of any download or upload.
\<close>

theorem cached_images_of_listing:
  assumes "mset (completion_order env (map (download_result env) (take 5 images)))
             = mset (map (download_result env) (take 5 images))"
  shows "length (cache_images env images) \<le> 5
       \<and> mset (cache_images env images) =
           image_mset (upload_to_cdn env)
             (mset (List.map_filter
                      (\<lambda>url. if truthy (download_result env url) then download_result env url
                             else None)
                      (take 5 images)))
       \<and> (\<forall>p. upload_result env p = None \<longrightarrow> upload_to_cdn env p = file_scheme @ p)
       \<and> listing_outcome (process_listing F cfg
             (env \<lparr> download_result := d, upload_result := u, completion_order := co \<rparr>) m s)
           = listing_outcome (process_listing F cfg env m s)"
proof (intro conjI allI impI)
  let ?g = "\<lambda>r :: pystr option. if truthy r then r else None"
  let ?fs = "map (download_result env) (take 5 images)"
  have "length (downloaded env images) \<le> length (completion_order env ?fs)"
    unfolding downloaded_def by (rule length_map_filter_le)
  also have "\<dots> = length ?fs"
    using assms by (rule mset_eq_length)
  also have "\<dots> \<le> 5" by simp
  finally show "length (cache_images env images) \<le> 5"
    by (simp add: cache_images_def)
  have "mset (downloaded env images) = mset (List.map_filter ?g ?fs)"
    unfolding downloaded_def using assms by (rule mset_map_filter_cong)
  also have "List.map_filter ?g ?fs =
      List.map_filter (\<lambda>url. if truthy (download_result env url) then download_result env url
                             else None) (take 5 images)"
    by (rule map_filter_map)
  finally have dl: "mset (downloaded env images) =
      mset (List.map_filter (\<lambda>url. if truthy (download_result env url) then download_result env url
                             else None) (take 5 images))" .
  show "mset (cache_images env images) =
           image_mset (upload_to_cdn env)
             (mset (List.map_filter
                      (\<lambda>url. if truthy (download_result env url) then download_result env url
                             else None)
                      (take 5 images)))"
  proof (cases "images = []")
    case True
    then show ?thesis by (simp add: cache_images_def List.map_filter_simps)
  next
    case False
    then have "mset (cache_images env images) = image_mset (upload_to_cdn env) (mset (downloaded env images))"
      by (simp add: cache_images_def)
    with dl show ?thesis by simp
  qed
  show "upload_to_cdn env p = file_scheme @ p" if "upload_result env p = None" for p
    using that by (simp add: upload_to_cdn_def)
  show "listing_outcome (process_listing F cfg
             (env \<lparr> download_result := d, upload_result := u, completion_order := co \<rparr>) m s)
           = listing_outcome (process_listing F cfg env m s)"
    by (rule process_listing_images_independent)
qed

lemma mixed_futures:
  "map (download_result mixed) (take 5 seven_images) =
     [Some local_path, None, Some local_path, Some local_path, Some local_path]"
  by (simp add: mixed_def silent_def seven_images_def image_url_def)

lemma mixed_cached:
  "cache_images mixed seven_images = replicate 4 (takeWhile (\<lambda>c. c \<noteq> 63) presigned_url)"
proof -
  have "downloaded mixed seven_images = replicate 4 local_path"
    unfolding downloaded_def mixed_futures
    by (simp add: mixed_def silent_def List.map_filter_simps local_path_def numeral_eq_Suc)
  then show ?thesis
    by (simp add: cache_images_def seven_images_def upload_to_cdn_def mixed_def silent_def)
qed

theorem cached_images_of_listing_witness:
  "mset (completion_order mixed (map (download_result mixed) (take 5 seven_images)))
     = mset (map (download_result mixed) (take 5 seven_images))
   \<and> length (cache_images mixed seven_images) \<le> 5
   \<and> cache_images mixed seven_images = replicate 4 [104, 116, 116, 112, 58, 47, 47, 99, 47, 49]"
proof -
  have perm: "mset (completion_order mixed (map (download_result mixed) (take 5 seven_images)))
     = mset (map (download_result mixed) (take 5 seven_images))"
    by (simp add: mixed_def silent_def)
  from cached_images_of_listing [OF perm]
  have "length (cache_images mixed seven_images) \<le> 5" by blast
  with perm show ?thesis by (simp add: mixed_cached presigned_url_def)
qed


section \<open>Properties of the per-listing loop\<close>

lemma add_spend_frame [simp]:
  "listings (add_spend p x s) = listings s"
  "validated_ids (add_spend p x s) = validated_ids s"
  "needs_human (add_spend p x s) = needs_human s"
  "events (add_spend p x s) = events s"
  "listing_embeddings (add_spend p x s) = listing_embeddings s"
  "trusted_listings (add_spend p x s) = trusted_listings s"
  "model_spend (add_spend p x s) q = (if q = p then model_spend s p + x else model_spend s q)"
  by (simp_all add: add_spend_def)

lemma log_event_frame [simp]:
  "listings (log_event e s) = listings s"
  "validated_ids (log_event e s) = validated_ids s"
  "needs_human (log_event e s) = needs_human s"
  "events (log_event e s) = events s @ [e]"
  "listing_embeddings (log_event e s) = listing_embeddings s"
  "trusted_listings (log_event e s) = trusted_listings s"
  "model_spend (log_event e s) = model_spend s"
  by (simp_all add: log_event_def)

lemma save_embedding_frame [simp]:
  "listings (save_embedding i v s) = listings s"
  "validated_ids (save_embedding i v s) = validated_ids s"
  "needs_human (save_embedding i v s) = needs_human s"
  "events (save_embedding i v s) = events s"
  "trusted_listings (save_embedding i v s) = trusted_listings s"
  "model_spend (save_embedding i v s) = model_spend s"
  by (simp_all add: save_embedding_def)

lemma logged_simps [simp]:
  "logged e (log_event e' s) = (if e' = e then Suc (logged e s) else logged e s)"
  "logged e (add_spend p x s) = logged e s"
  "logged e (save_embedding i v s) = logged e s"
  by (simp_all add: logged_def)

text \<open>What each stage leaves alone, and what it may add to the \<open>gpt5\<close> counter.\<close>

lemma anthropic_frame:
  assumes "call_anthropic_validation cfg env s = (v, s')"
  shows "listings s' = listings s \<and> validated_ids s' = validated_ids s
       \<and> needs_human s' = needs_human s \<and> trusted_listings s' = trusted_listings s
       \<and> model_spend s' Gpt5 = model_spend s Gpt5
       \<and> model_spend s' Perplexity = model_spend s Perplexity
       \<and> logged Finalize_call s' = logged Finalize_call s
       \<and> logged Chat_request s' = logged Chat_request s"
  using assms by (auto simp: call_anthropic_validation_def split: if_splits option.splits)

lemma evaluate_trust_frame:
  assumes "evaluate_trust cfg env price c s = (t, s')"
  shows "listings s' = listings s \<and> validated_ids s' = validated_ids s
       \<and> needs_human s' = needs_human s \<and> trusted_listings s' = trusted_listings s
       \<and> model_spend s' Gpt5 = model_spend s Gpt5
       \<and> model_spend s' Perplexity = model_spend s Perplexity
       \<and> logged Finalize_call s' = logged Finalize_call s
       \<and> logged Chat_request s' = logged Chat_request s"
proof (cases "GPT5_PRICE_THRESHOLD cfg \<le> int price \<or> c < 85 / 100")
  case True
  obtain v s1 where a: "call_anthropic_validation cfg env s = (v, s1)" by (rule prod.exhaust)
  with True assms have "s' = s1" by (simp add: evaluate_trust_def)
  with anthropic_frame [OF a] show ?thesis by simp
next
  case False
  with assms show ?thesis by (simp add: evaluate_trust_def)
qed

lemma perplexity_frame:
  assumes "call_perplexity_check cfg env s = (b, s')"
  shows "listings s' = listings s \<and> validated_ids s' = validated_ids s
       \<and> needs_human s' = needs_human s \<and> trusted_listings s' = trusted_listings s
       \<and> model_spend s' Gpt5 = model_spend s Gpt5
       \<and> logged Finalize_call s' = logged Finalize_call s
       \<and> logged Chat_request s' = logged Chat_request s"
  using assms by (auto simp: call_perplexity_check_def split: if_splits)

lemma selective_perplexity_frame:
  "listings (selective_perplexity cfg env price s) = listings s
   \<and> validated_ids (selective_perplexity cfg env price s) = validated_ids s
   \<and> needs_human (selective_perplexity cfg env price s) = needs_human s
   \<and> trusted_listings (selective_perplexity cfg env price s) = trusted_listings s
   \<and> model_spend (selective_perplexity cfg env price s) Gpt5 = model_spend s Gpt5
   \<and> logged Finalize_call (selective_perplexity cfg env price s) = logged Finalize_call s
   \<and> logged Chat_request (selective_perplexity cfg env price s) = logged Chat_request s"
proof -
  obtain b s1 where p: "call_perplexity_check cfg env s = (b, s1)" by (rule prod.exhaust)
  from perplexity_frame [OF p] p show ?thesis
    by (simp add: selective_perplexity_def Let_def)
qed

lemma get_embedding_frame:
  assumes "get_embedding cfg env text s = (v, s')"
  shows "listings s' = listings s \<and> validated_ids s' = validated_ids s
       \<and> needs_human s' = needs_human s \<and> trusted_listings s' = trusted_listings s
       \<and> model_spend s Gpt5 \<le> model_spend s' Gpt5
       \<and> model_spend s' Gpt5 \<le> model_spend s Gpt5 + 1 / 10000
       \<and> logged Finalize_call s' = logged Finalize_call s
       \<and> logged Chat_request s' = logged Chat_request s"
  using assms by (auto simp: get_embedding_def split: if_splits option.splits)

lemma analyse_frame:
  assumes "analyse F cfg env i n c s = (t, sim, s4)"
  shows "listings s4 = listings s \<and> validated_ids s4 = validated_ids s
       \<and> needs_human s4 = needs_human s \<and> trusted_listings s4 = trusted_listings s
       \<and> model_spend s Gpt5 \<le> model_spend s4 Gpt5
       \<and> model_spend s4 Gpt5 \<le> model_spend s Gpt5 + 1 / 10000
       \<and> logged Finalize_call s4 = logged Finalize_call s
       \<and> logged Chat_request s4 = logged Chat_request s"
proof -
  let ?price = "case n_price n of None \<Rightarrow> 0 | Some p \<Rightarrow> p"
  obtain t1 s1 where e: "evaluate_trust cfg env ?price c s = (t1, s1)" by (rule prod.exhaust)
  let ?s2 = "selective_perplexity cfg env ?price s1"
  obtain v s3 where g: "get_embedding cfg env (text_for_embed n) ?s2 = (v, s3)"
    by (rule prod.exhaust)
  from assms e g have s4: "s4 = save_embedding i v s3"
    by (simp add: analyse_def Let_def)
  from evaluate_trust_frame [OF e] selective_perplexity_frame [of cfg env ?price s1]
    get_embedding_frame [OF g]
  show ?thesis unfolding s4 by simp
qed

lemma call_gpt5_finalize_frame:
  assumes "n_price n = Some p"
  shows "\<exists>d s'. call_gpt5_finalize cfg env n sim s = Inr (d, s')
       \<and> listings s' = listings s \<and> validated_ids s' = validated_ids s
       \<and> needs_human s' = needs_human s \<and> trusted_listings s' = trusted_listings s
       \<and> model_spend s Gpt5 \<le> model_spend s' Gpt5
       \<and> model_spend s' Gpt5 \<le> model_spend s Gpt5 + 5 / 100
       \<and> logged Finalize_call s' = logged Finalize_call s
       \<and> logged Chat_request s' = logged Chat_request s + (if openai_client cfg then 1 else 0)"
  using assms
  by (auto simp: call_gpt5_finalize_def fallback_decision_def split: option.splits)

lemma finalize_selective_frame:
  assumes "n_price n = Some p"
  shows "\<exists>final s5. finalize_selective cfg env n price t sim s4 = Inr (final, s5)
       \<and> listings s5 = listings s4 \<and> validated_ids s5 = validated_ids s4
       \<and> needs_human s5 = needs_human s4 \<and> trusted_listings s5 = trusted_listings s4
       \<and> model_spend s4 Gpt5 \<le> model_spend s5 Gpt5
       \<and> (if needs_final cfg price t sim \<and> model_spend s4 Gpt5 < DAILY_GPT5_BUDGET cfg
           then model_spend s5 Gpt5 \<le> model_spend s4 Gpt5 + 1 / 10
              \<and> logged Finalize_call s5 = Suc (logged Finalize_call s4)
              \<and> logged Chat_request s5 =
                    logged Chat_request s4 + (if openai_client cfg then 1 else 0)
           else model_spend s5 Gpt5 = model_spend s4 Gpt5
              \<and> logged Finalize_call s5 = logged Finalize_call s4
              \<and> logged Chat_request s5 = logged Chat_request s4)"
proof (cases "needs_final cfg price t sim \<and> model_spend s4 Gpt5 < DAILY_GPT5_BUDGET cfg")
  case True
  from call_gpt5_finalize_frame [OF assms, of cfg env sim "log_event Finalize_call s4"]
  obtain d s' where c: "call_gpt5_finalize cfg env n sim (log_event Finalize_call s4) = Inr (d, s')"
    and f: "listings s' = listings s4" "validated_ids s' = validated_ids s4"
       "needs_human s' = needs_human s4" "trusted_listings s' = trusted_listings s4"
       "model_spend s4 Gpt5 \<le> model_spend s' Gpt5"
       "model_spend s' Gpt5 \<le> model_spend s4 Gpt5 + 5 / 100"
       "logged Finalize_call s' = Suc (logged Finalize_call s4)"
       "logged Chat_request s' = logged Chat_request s4 + (if openai_client cfg then 1 else 0)"
    by auto
  from True c have "finalize_selective cfg env n price t sim s4 = Inr (d, add_spend Gpt5 (5 / 100) s')"
    by (simp add: finalize_selective_def)
  with True f show ?thesis by simp
next
  case False
  then have "finalize_selective cfg env n price t sim s4 = Inr (default_decision price t, s4)"
    by (auto simp: finalize_selective_def)
  with False show ?thesis by auto
qed

lemma update_final_status_frame:
  "model_spend (update_final_status cfg i raw n final t cached s) = model_spend s
   \<and> events (update_final_status cfg i raw n final t cached s) = events s
   \<and> needs_human (update_final_status cfg i raw n final t cached s) = needs_human s
   \<and> (\<exists>st. listings (update_final_status cfg i raw n final t cached s)
              = set_status i st (Some (Number t)) (listings s) \<and> st \<noteq> Needs_human)
   \<and> set (validated_ids (update_final_status cfg i raw n final t cached s))
        \<subseteq> insert i (set (validated_ids s))"
  by (auto simp: update_final_status_def)




text \<open>
  The test of the loop. For a listing that passes the missing-field gate and has a
  numeric trust score the loop calls \<open>call_gpt5_finalize\<close> exactly when the price has
  reached \<open>GPT5_PRICE_THRESHOLD\<close>, the trust score is below \<open>TRUST_SCORE_PUBLISH\<close> or the
  scan returned an identifier, and the \<open>gpt5\<close> counter, as it stands after the embedding
  request, is below \<open>DAILY_GPT5_BUDGET\<close>; the call sends a request to the provider when
  the client is configured. The scan runs on the table that already holds the embedding
  of the listing itself.
\<close>

lemma escalation_rule:
  assumes "reload s m = (n, c)" and "\<not> missing_critical n"
    and "analyse F cfg env (fst m) n c s = (Number t, sim, s4)"
  shows "\<exists>s'. process_listing F cfg env m s = (None, s')
       \<and> logged Finalize_call s' = logged Finalize_call s +
            (if (GPT5_PRICE_THRESHOLD cfg \<le> int (case n_price n of None \<Rightarrow> 0 | Some p \<Rightarrow> p)
                   \<or> t < TRUST_SCORE_PUBLISH cfg \<or> sim \<noteq> [])
                \<and> model_spend s4 Gpt5 < DAILY_GPT5_BUDGET cfg
             then 1 else 0)
       \<and> logged Chat_request s' = logged Chat_request s +
            (if (GPT5_PRICE_THRESHOLD cfg \<le> int (case n_price n of None \<Rightarrow> 0 | Some p \<Rightarrow> p)
                   \<or> t < TRUST_SCORE_PUBLISH cfg \<or> sim \<noteq> [])
                \<and> model_spend s4 Gpt5 < DAILY_GPT5_BUDGET cfg \<and> openai_client cfg
             then 1 else 0)"
proof -
  let ?price = "case n_price n of None \<Rightarrow> 0 | Some p \<Rightarrow> p"
  obtain i raw n0 c0 where m: "m = (i, raw, n0, c0)" by (cases m) auto
  from assms(2) obtain p where p: "n_price n = Some p" using not_missing_price by blast
  from finalize_selective_frame [OF p, of cfg env ?price t sim s4]
  obtain final s5 where f: "finalize_selective cfg env n ?price t sim s4 = Inr (final, s5)"
    and g: "if needs_final cfg ?price t sim \<and> model_spend s4 Gpt5 < DAILY_GPT5_BUDGET cfg
           then model_spend s5 Gpt5 \<le> model_spend s4 Gpt5 + 1 / 10
              \<and> logged Finalize_call s5 = Suc (logged Finalize_call s4)
              \<and> logged Chat_request s5 =
                    logged Chat_request s4 + (if openai_client cfg then 1 else 0)
           else model_spend s5 Gpt5 = model_spend s4 Gpt5
              \<and> logged Finalize_call s5 = logged Finalize_call s4
              \<and> logged Chat_request s5 = logged Chat_request s4"
    by blast
  from assms m have rl: "reload s (i, raw, n0, c0) = (n, c)"
    and an: "analyse F cfg env i n c s = (Number t, sim, s4)" by simp_all
  let ?s' = "update_final_status cfg i raw n final t (cache_images env (n_images n)) s5"
  have res: "process_listing F cfg env m s = (None, ?s')"
    unfolding m by (rule process_listing_passed [OF rl assms(2) an f])
  have ev: "logged e ?s' = logged e s5" for e
    using update_final_status_frame [of cfg i raw n final t "cache_images env (n_images n)" s5]
    by (simp add: logged_def)
  from analyse_frame [OF an] have a4: "logged Finalize_call s4 = logged Finalize_call s"
    "logged Chat_request s4 = logged Chat_request s" by simp_all
  have nf: "needs_final cfg ?price t sim =
      (GPT5_PRICE_THRESHOLD cfg \<le> int ?price \<or> t < TRUST_SCORE_PUBLISH cfg \<or> sim \<noteq> [])"
    by (simp add: needs_final_def)
  define esc where "esc = ((GPT5_PRICE_THRESHOLD cfg \<le> int ?price \<or> t < TRUST_SCORE_PUBLISH cfg
                              \<or> sim \<noteq> [])
                            \<and> model_spend s4 Gpt5 < DAILY_GPT5_BUDGET cfg)"
  from g nf have g': "if esc
           then logged Finalize_call s5 = Suc (logged Finalize_call s4)
              \<and> logged Chat_request s5 =
                    logged Chat_request s4 + (if openai_client cfg then 1 else 0)
           else logged Finalize_call s5 = logged Finalize_call s4
              \<and> logged Chat_request s5 = logged Chat_request s4"
    unfolding esc_def by (simp split: if_splits)
  have fc: "logged Finalize_call ?s' = logged Finalize_call s + (if esc then 1 else 0)"
    unfolding ev a4 [symmetric] using g' by (cases esc) simp_all
  have cr: "logged Chat_request ?s' = logged Chat_request s + (if esc \<and> openai_client cfg then 1 else 0)"
    unfolding ev a4 [symmetric] using g' by (cases esc) simp_all
  from res fc cr show ?thesis
    unfolding esc_def by (intro exI [of _ ?s']) (simp only: conj_assoc simp_thms)
qed

lemma answering_simps:
  "anthropic_response answering = Some (Some (Number (9 / 10)))"
  "perplexity_response answering = False"
  "embedding_response answering = Some [1]"
  "gpt5_response answering = Some \<lparr> approve = True, final_price_band = None,
                                     final_trust_score = Some (9 / 10) \<rparr>"
  by (simp_all add: answering_def silent_def)

lemma text_for_embed_nonempty: "text_for_embed n \<noteq> []"
  by (simp add: text_for_embed_def)

lemma get_embedding_answered:
  assumes "openai_client cfg" "embedding_response env = Some v"
  shows "get_embedding cfg env (text_for_embed n) s =
           (v, add_spend Gpt5 (1 / 10000) (log_event Embedding_request s))"
  using assms by (simp add: get_embedding_def text_for_embed_nonempty)

lemma selective_perplexity_skipped:
  "0 \<le> PRICE_ANOMALY_PCT cfg \<Longrightarrow> selective_perplexity cfg env price s = s"
  by (simp add: selective_perplexity_def Let_def)

lemma scan_of_unit: "find_similar_by_embedding exact_ops [(i, [1])] [1] (92 / 100) = [i]"
  by (simp add: find_similar_by_embedding_def flagged_def exact_unit)

lemma reload_cheap: "reload cheap_start cheap_mapping = (cheap_listing, 9 / 10)"
  by (simp add: reload_def cheap_mapping_def cheap_start_def initial_state_def)

lemma cheap_listing_passes: "\<not> missing_critical cheap_listing"
  by (simp add: missing_critical_def cheap_listing_def listing_with_def)

lemma cheap_listing_price: "n_price cheap_listing = Some 100000"
  by (simp add: cheap_listing_def listing_with_def)

lemma analyse_cheap:
  "analyse exact_ops default_config answering 1 cheap_listing (9 / 10) cheap_start =
     (Number (9 / 10), [1],
      save_embedding 1 [1] (add_spend Gpt5 (1 / 10000) (log_event Embedding_request cheap_start)))"
proof -
  have t: "evaluate_trust default_config answering 100000 (9 / 10) cheap_start
             = (Number (9 / 10), cheap_start)"
    by (simp add: evaluate_trust_def default_config_def)
  have p: "selective_perplexity default_config answering 100000 cheap_start = cheap_start"
    by (rule selective_perplexity_skipped) (simp add: default_config_def)
  have e: "get_embedding default_config answering (text_for_embed cheap_listing) cheap_start =
             ([1], add_spend Gpt5 (1 / 10000) (log_event Embedding_request cheap_start))"
    by (rule get_embedding_answered) (simp_all add: default_config_def answering_simps)
  have l: "listing_embeddings (save_embedding 1 [1]
             (add_spend Gpt5 (1 / 10000) (log_event Embedding_request cheap_start))) = [(1, [1])]"
    by (simp add: save_embedding_def cheap_start_def initial_state_def)
  have d: "DEDUPE_SIMILARITY default_config = 92 / 100"
    by (simp add: default_config_def)
  show ?thesis
    unfolding analyse_def Let_def cheap_listing_price option.case t prod.case p e l d scan_of_unit
    by (rule refl)
qed

text \<open>
  Claim C2, the code at a failing input. The table of embeddings is empty, the price
  100,000 is below \<open>GPT5_PRICE_THRESHOLD\<close> and the trust score 0.9 is not below
  \<open>TRUST_SCORE_PUBLISH\<close>, so none of the three reasons of the claim holds: there is no
  other listing that could be a near-duplicate. The scan nevertheless returns the
  listing's own identifier, because its embedding is saved before the scan, and the
  loop calls \<open>call_gpt5_finalize\<close>, which sends the request.
\<close>

theorem self_match_escalates:
  "listing_embeddings cheap_start = []
   \<and> \<not> GPT5_PRICE_THRESHOLD default_config \<le> 100000
   \<and> fst (analyse exact_ops default_config answering 1 cheap_listing (9 / 10) cheap_start)
       = Number (9 / 10)
   \<and> \<not> 9 / 10 < TRUST_SCORE_PUBLISH default_config
   \<and> fst (snd (analyse exact_ops default_config answering 1 cheap_listing (9 / 10) cheap_start))
       = [1]
   \<and> fst (process_listing exact_ops default_config answering cheap_mapping cheap_start) = None
   \<and> logged Finalize_call
        (snd (process_listing exact_ops default_config answering cheap_mapping cheap_start)) = 1
   \<and> logged Chat_request
        (snd (process_listing exact_ops default_config answering cheap_mapping cheap_start)) = 1"
proof -
  let ?s4 = "save_embedding 1 [1]
               (add_spend Gpt5 (1 / 10000) (log_event Embedding_request cheap_start))"
  have an: "analyse exact_ops default_config answering (fst cheap_mapping) cheap_listing (9 / 10)
              cheap_start = (Number (9 / 10), [1], ?s4)"
    unfolding cheap_mapping_def fst_conv by (rule analyse_cheap)
  have budget: "model_spend ?s4 Gpt5 < DAILY_GPT5_BUDGET default_config"
    by (simp add: default_config_def cheap_start_def initial_state_def)
  have client: "openai_client default_config"
    by (simp add: default_config_def)
  have clean: "logged Finalize_call cheap_start = 0" "logged Chat_request cheap_start = 0"
    by (simp_all add: logged_def cheap_start_def initial_state_def)
  from escalation_rule [OF reload_cheap cheap_listing_passes an] budget client clean
  obtain s' where run: "process_listing exact_ops default_config answering cheap_mapping cheap_start
                     = (None, s')"
    and calls: "logged Finalize_call s' = 1" "logged Chat_request s' = 1"
    by auto
  have empty: "listing_embeddings cheap_start = []"
    by (simp add: cheap_start_def initial_state_def)
  have price: "\<not> GPT5_PRICE_THRESHOLD default_config \<le> 100000"
    and trust: "\<not> 9 / 10 < TRUST_SCORE_PUBLISH default_config"
    by (simp_all add: default_config_def)
  show ?thesis
    unfolding run analyse_cheap fst_conv snd_conv
    using empty price trust calls by (intro conjI refl)
qed


lemma set_status_id [simp]: "map row_id (set_status j st tr rows) = map row_id rows"
  by (induction rows) (simp_all add: set_status_def)

lemma find_set_status_other:
  assumes "j \<noteq> i"
  shows "find (\<lambda>r. row_id r = i) (set_status j st tr rows) = find (\<lambda>r. row_id r = i) rows"
  using assms by (induction rows) (simp_all add: set_status_def)

lemma find_set_status_same:
  assumes "find (\<lambda>r. row_id r = i) rows = Some row"
  shows "\<exists>row'. find (\<lambda>r. row_id r = i) (set_status i st tr rows) = Some row'
           \<and> row_normalized row' = row_normalized row \<and> row_status row' = st"
  using assms by (induction rows) (auto simp: set_status_def split: if_splits)

lemma reload_found:
  "find (\<lambda>r. row_id r = i) (listings s) = Some row \<Longrightarrow>
     reload s (i, raw, n0, c0) = (row_normalized row, row_confidence row)"
  by (simp add: reload_def)


lemma status_of_set_status_other:
  "j \<noteq> i \<Longrightarrow> status_of i (s \<lparr> listings := set_status j st tr (listings s) \<rparr>) = status_of i s"
  by (simp add: status_of_def find_set_status_other)

lemma finish_non_numeric_frame:
  assumes "n_price n = Some p"
  shows "\<exists>r s'. finish_non_numeric cfg env i n sim s4 = (r, s')
        \<and> (listings s' = listings s4
             \<or> listings s' = set_status i Needs_review (Some NonNumeric) (listings s4))
        \<and> validated_ids s' = validated_ids s4 \<and> needs_human s' = needs_human s4
        \<and> trusted_listings s' = trusted_listings s4
        \<and> model_spend s4 Gpt5 \<le> model_spend s' Gpt5
        \<and> (\<not> model_spend s4 Gpt5 < DAILY_GPT5_BUDGET cfg \<longrightarrow>
               model_spend s' Gpt5 = model_spend s4 Gpt5
             \<and> logged Finalize_call s' = logged Finalize_call s4)"
proof (cases "GPT5_PRICE_THRESHOLD cfg \<le> int p \<and> model_spend s4 Gpt5 < DAILY_GPT5_BUDGET cfg")
  case False
  with assms have "finish_non_numeric cfg env i n sim s4 = (Some TypeError, s4)"
    by (auto simp: finish_non_numeric_def)
  then show ?thesis by simp
next
  case True
  from call_gpt5_finalize_frame [OF assms, of cfg env sim "log_event Finalize_call s4"]
  obtain d s1 where c: "call_gpt5_finalize cfg env n sim (log_event Finalize_call s4) = Inr (d, s1)"
    and f: "listings s1 = listings s4" "validated_ids s1 = validated_ids s4"
       "needs_human s1 = needs_human s4" "trusted_listings s1 = trusted_listings s4"
       "model_spend s4 Gpt5 \<le> model_spend s1 Gpt5"
       "model_spend s1 Gpt5 \<le> model_spend s4 Gpt5 + 5 / 100"
    by auto
  let ?s5 = "add_spend Gpt5 (5 / 100) s1"
  from True assms c have r: "finish_non_numeric cfg env i n sim s4 =
      (if approve d then (Some TypeError, ?s5)
       else (None, ?s5 \<lparr> listings := set_status i Needs_review (Some NonNumeric) (listings ?s5) \<rparr>))"
    by (simp add: finish_non_numeric_def Let_def)
  show ?thesis
  proof (cases "approve d")
    case True
    with r have "finish_non_numeric cfg env i n sim s4 = (Some TypeError, ?s5)" by simp
    with f \<open>GPT5_PRICE_THRESHOLD cfg \<le> int p \<and> model_spend s4 Gpt5 < DAILY_GPT5_BUDGET cfg\<close>
    show ?thesis by simp
  next
    case False
    with r have "finish_non_numeric cfg env i n sim s4 =
        (None, ?s5 \<lparr> listings := set_status i Needs_review (Some NonNumeric) (listings ?s5) \<rparr>)"
      by simp
    with f \<open>GPT5_PRICE_THRESHOLD cfg \<le> int p \<and> model_spend s4 Gpt5 < DAILY_GPT5_BUDGET cfg\<close>
    show ?thesis by simp
  qed
qed

text \<open>
  Every pass of the loop body touches the row of its own listing only, publishes no
  other listing, and does not lower the \<open>gpt5\<close> counter.
\<close>

lemma process_listing_effect:
  "\<exists>r s'. process_listing F cfg env (j, raw, n0, c0) s = (r, s')
        \<and> (listings s' = listings s \<or> (\<exists>st tr. listings s' = set_status j st tr (listings s)))
        \<and> set (validated_ids s') \<subseteq> insert j (set (validated_ids s))
        \<and> set (needs_human s) \<subseteq> set (needs_human s')
        \<and> model_spend s Gpt5 \<le> model_spend s' Gpt5"
proof -
  obtain n c where rl: "reload s (j, raw, n0, c0) = (n, c)" by (rule prod.exhaust)
  show ?thesis
  proof (cases "missing_critical n")
    case True
    let ?s' = "s \<lparr> needs_human := needs_human s @ [j],
                     listings := set_status j Needs_human None (listings s) \<rparr>"
    have "listings ?s' = set_status j Needs_human None (listings s)" by simp
    then have l: "listings ?s' = listings s \<or> (\<exists>st tr. listings ?s' = set_status j st tr (listings s))"
      by blast
    have rest: "set (validated_ids ?s') \<subseteq> insert j (set (validated_ids s))"
      "set (needs_human s) \<subseteq> set (needs_human ?s')"
      "model_spend s Gpt5 \<le> model_spend ?s' Gpt5"
      by auto
    from process_listing_gated [OF rl True, of F cfg env] l rest show ?thesis by blast
  next
    case False
    let ?price = "case n_price n of None \<Rightarrow> 0 | Some p \<Rightarrow> p"
    obtain tv sim s4 where an: "analyse F cfg env j n c s = (tv, sim, s4)" by (rule prod_cases3)
    from False obtain p where p: "n_price n = Some p" using not_missing_price by blast
    note a = analyse_frame [OF an]
    show ?thesis
    proof (cases tv)
      case (Number t)
      from finalize_selective_frame [OF p, of cfg env ?price t sim s4]
      obtain final s5 where f: "finalize_selective cfg env n ?price t sim s4 = Inr (final, s5)"
        and f5: "listings s5 = listings s4" "validated_ids s5 = validated_ids s4"
          "needs_human s5 = needs_human s4" "model_spend s4 Gpt5 \<le> model_spend s5 Gpt5"
        by (auto split: if_splits)
      let ?s' = "update_final_status cfg j raw n final t (cache_images env (n_images n)) s5"
      have res: "process_listing F cfg env (j, raw, n0, c0) s = (None, ?s')"
        by (rule process_listing_passed [OF rl False an [unfolded Number] f])
      note u = update_final_status_frame [of cfg j raw n final t "cache_images env (n_images n)" s5]
      from u obtain st where st: "listings ?s' = set_status j st (Some (Number t)) (listings s5)"
        by blast
      have l: "\<exists>st tr. listings ?s' = set_status j st tr (listings s)"
        using st f5(1) a by auto
      have v: "set (validated_ids ?s') \<subseteq> insert j (set (validated_ids s))"
        using u f5(2) a by auto
      have h: "set (needs_human s) \<subseteq> set (needs_human ?s')"
        using u f5(3) a by auto
      from u have m5: "model_spend ?s' Gpt5 = model_spend s5 Gpt5" by simp
      have lo: "model_spend s Gpt5 \<le> model_spend ?s' Gpt5"
        unfolding m5 using a f5(4) by linarith
      from res l v h lo show ?thesis by blast
    next
      case NonNumeric
      have res: "process_listing F cfg env (j, raw, n0, c0) s = finish_non_numeric cfg env j n sim s4"
        by (rule process_listing_non_numeric [OF rl False an [unfolded NonNumeric]])
      from finish_non_numeric_frame [OF p, of cfg env j sim s4]
      obtain r s' where fin: "finish_non_numeric cfg env j n sim s4 = (r, s')"
        and l: "listings s' = listings s4
             \<or> listings s' = set_status j Needs_review (Some NonNumeric) (listings s4)"
        and v: "validated_ids s' = validated_ids s4" and h: "needs_human s' = needs_human s4"
        and lo: "model_spend s4 Gpt5 \<le> model_spend s' Gpt5"
        by blast
      have l': "listings s' = listings s \<or> (\<exists>st tr. listings s' = set_status j st tr (listings s))"
        using l a by auto
      have v': "set (validated_ids s') \<subseteq> insert j (set (validated_ids s))"
        using v a by auto
      have h': "set (needs_human s) \<subseteq> set (needs_human s')"
        using h a by auto
      have lo': "model_spend s Gpt5 \<le> model_spend s' Gpt5"
        using a lo by linarith
      from res fin l' v' h' lo' show ?thesis by auto
    qed
  qed
qed

lemma process_saved_append:
  "process_saved F cfg (xs @ ys) s =
     (case process_saved F cfg xs s of
        (Some e, s') \<Rightarrow> (Some e, s')
      | (None, s') \<Rightarrow> process_saved F cfg ys s')"
proof (induction xs arbitrary: s)
  case Nil
  show ?case by simp
next
  case (Cons x xs)
  obtain m env where x: "x = (m, env)" by (cases x)
  obtain r s1 where st: "process_listing F cfg env m s = (r, s1)" by (cases "process_listing F cfg env m s")
  show ?case
  proof (cases r)
    case None
    with x st Cons [of s1] show ?thesis by simp
  next
    case (Some e)
    with x st show ?thesis by simp
  qed
qed




lemma analyse_trust:
  "fst (analyse F cfg env i n c s) =
     fst (evaluate_trust cfg env (case n_price n of None \<Rightarrow> 0 | Some p \<Rightarrow> p) c s)"
  by (simp add: analyse_def Let_def split: prod.splits)









section \<open>Properties of the spend counters\<close>

lemma perplexity_call_bound:
  "model_spend (snd (call_perplexity_check cfg env s)) Perplexity
     \<le> max (model_spend s Perplexity) (DAILY_PERPLEXITY_BUDGET cfg + 3 / 100)"
  by (simp add: call_perplexity_check_def)

lemma perplexity_calls_bound:
  "model_spend (perplexity_calls cfg envs s) Perplexity
     \<le> max (model_spend s Perplexity) (DAILY_PERPLEXITY_BUDGET cfg + 3 / 100)"
proof (induction envs arbitrary: s)
  case Nil
  show ?case by (simp add: perplexity_calls_def)
next
  case (Cons env envs)
  let ?s1 = "snd (call_perplexity_check cfg env s)"
  have "model_spend (perplexity_calls cfg (env # envs) s) Perplexity
          = model_spend (perplexity_calls cfg envs ?s1) Perplexity"
    by (simp add: perplexity_calls_def)
  moreover note Cons [of ?s1] perplexity_call_bound [of cfg env s]
  ultimately show ?case by linarith
qed

lemma get_embedding_spend:
  assumes "get_embedding cfg env text s = (v, s')"
  shows "model_spend s' Gpt5 = model_spend s Gpt5
       \<or> model_spend s' Gpt5 = model_spend s Gpt5 + 1 / 10000"
  using assms by (auto simp: get_embedding_def split: if_splits option.splits)

lemma analyse_spend:
  assumes "analyse F cfg env i n c s = (tv, sim, s4)"
  shows "model_spend s4 Gpt5 = model_spend s Gpt5
       \<or> model_spend s4 Gpt5 = model_spend s Gpt5 + 1 / 10000"
proof -
  let ?price = "case n_price n of None \<Rightarrow> 0 | Some p \<Rightarrow> p"
  obtain t1 s1 where e: "evaluate_trust cfg env ?price c s = (t1, s1)" by (rule prod.exhaust)
  let ?s2 = "selective_perplexity cfg env ?price s1"
  obtain v s3 where g: "get_embedding cfg env (text_for_embed n) ?s2 = (v, s3)"
    by (rule prod.exhaust)
  from assms e g have s4: "s4 = save_embedding i v s3"
    by (simp add: analyse_def Let_def)
  from evaluate_trust_frame [OF e] selective_perplexity_frame [of cfg env ?price s1]
  have "model_spend ?s2 Gpt5 = model_spend s Gpt5" by simp
  with get_embedding_spend [OF g] show ?thesis unfolding s4 by simp
qed

text \<open>
  With the counter at the cap a listing is not escalated and pays for its embedding
  only, if the request is answered.
\<close>

lemma process_listing_capped:
  assumes "DAILY_GPT5_BUDGET cfg \<le> model_spend s Gpt5"
  shows "\<exists>r s'. process_listing F cfg env (j, raw, n0, c0) s = (r, s')
        \<and> logged Finalize_call s' = logged Finalize_call s
        \<and> (model_spend s' Gpt5 = model_spend s Gpt5
             \<or> model_spend s' Gpt5 = model_spend s Gpt5 + 1 / 10000)"
proof -
  obtain n c where rl: "reload s (j, raw, n0, c0) = (n, c)" by (rule prod.exhaust)
  show ?thesis
  proof (cases "missing_critical n")
    case True
    show ?thesis
      unfolding process_listing_gated [OF rl True] by (simp add: logged_def)
  next
    case False
    let ?price = "case n_price n of None \<Rightarrow> 0 | Some p \<Rightarrow> p"
    obtain tv sim s4 where an: "analyse F cfg env j n c s = (tv, sim, s4)" by (rule prod_cases3)
    from False obtain p where p: "n_price n = Some p" using not_missing_price by blast
    note a = analyse_frame [OF an]
    note b = analyse_spend [OF an]
    from a assms have closed: "\<not> model_spend s4 Gpt5 < DAILY_GPT5_BUDGET cfg" by linarith
    show ?thesis
    proof (cases tv)
      case (Number t)
      from closed
      have f: "finalize_selective cfg env n ?price t sim s4 = Inr (default_decision ?price t, s4)"
        by (simp add: finalize_selective_def)
      let ?s' = "update_final_status cfg j raw n (default_decision ?price t) t
                   (cache_images env (n_images n)) s4"
      have res: "process_listing F cfg env (j, raw, n0, c0) s = (None, ?s')"
        by (rule process_listing_passed [OF rl False an [unfolded Number] f])
      note u = update_final_status_frame [of cfg j raw n "default_decision ?price t" t
                   "cache_images env (n_images n)" s4]
      from u have m: "model_spend ?s' Gpt5 = model_spend s4 Gpt5" by simp
      from u have e: "logged Finalize_call ?s' = logged Finalize_call s4" by (simp add: logged_def)
      from a b have "logged Finalize_call ?s' = logged Finalize_call s"
        "model_spend ?s' Gpt5 = model_spend s Gpt5
           \<or> model_spend ?s' Gpt5 = model_spend s Gpt5 + 1 / 10000"
        unfolding m e by simp_all
      with res show ?thesis by blast
    next
      case NonNumeric
      have res: "process_listing F cfg env (j, raw, n0, c0) s = finish_non_numeric cfg env j n sim s4"
        by (rule process_listing_non_numeric [OF rl False an [unfolded NonNumeric]])
      from finish_non_numeric_frame [OF p, of cfg env j sim s4] closed
      obtain r s' where fin: "finish_non_numeric cfg env j n sim s4 = (r, s')"
        and m: "model_spend s' Gpt5 = model_spend s4 Gpt5"
        and e: "logged Finalize_call s' = logged Finalize_call s4"
        by auto
      from a b have "logged Finalize_call s' = logged Finalize_call s"
        "model_spend s' Gpt5 = model_spend s Gpt5
           \<or> model_spend s' Gpt5 = model_spend s Gpt5 + 1 / 10000"
        unfolding m e by simp_all
      with res fin show ?thesis by auto
    qed
  qed
qed

lemma process_saved_capped:
  assumes "DAILY_GPT5_BUDGET cfg \<le> model_spend s Gpt5"
  shows "\<exists>r s'. process_saved F cfg ms s = (r, s')
        \<and> logged Finalize_call s' = logged Finalize_call s
        \<and> model_spend s Gpt5 \<le> model_spend s' Gpt5"
  using assms
proof (induction ms arbitrary: s)
  case Nil
  show ?case by simp
next
  case (Cons x ms)
  obtain j raw n0 c0 env where x: "x = ((j, raw, n0, c0), env)" by (cases x) auto
  from process_listing_capped [OF Cons.prems, of F env j raw n0 c0]
  obtain r1 s1 where step: "process_listing F cfg env (j, raw, n0, c0) s = (r1, s1)"
    and l1: "logged Finalize_call s1 = logged Finalize_call s"
    and lo1: "model_spend s Gpt5 \<le> model_spend s1 Gpt5"
    by auto
  show ?case
  proof (cases r1)
    case (Some e)
    with step x have run: "process_saved F cfg (x # ms) s = (Some e, s1)" by simp
    with l1 lo1 show ?thesis by blast
  next
    case None
    from Cons.prems lo1 have "DAILY_GPT5_BUDGET cfg \<le> model_spend s1 Gpt5" by linarith
    from Cons.IH [OF this]
    obtain r s' where rest: "process_saved F cfg ms s1 = (r, s')"
      and l: "logged Finalize_call s' = logged Finalize_call s1"
      and lo: "model_spend s1 Gpt5 \<le> model_spend s' Gpt5"
      by blast
    from step rest x None have run: "process_saved F cfg (x # ms) s = (r, s')" by simp
    from l l1 have l': "logged Finalize_call s' = logged Finalize_call s" by simp
    from lo lo1 have lo': "model_spend s Gpt5 \<le> model_spend s' Gpt5" by linarith
    from run l' lo' show ?thesis by blast
  qed
qed

text \<open>No run of the loop lowers the \<open>gpt5\<close> counter.\<close>

lemma gpt5_spend_monotone:
  "\<exists>r s'. process_saved F cfg ms s = (r, s') \<and> model_spend s Gpt5 \<le> model_spend s' Gpt5"
proof (induction ms arbitrary: s)
  case Nil
  show ?case by simp
next
  case (Cons x ms)
  obtain j raw n0 c0 env where x: "x = ((j, raw, n0, c0), env)" by (cases x) auto
  from process_listing_effect [of F cfg env j raw n0 c0 s]
  obtain r1 s1 where step: "process_listing F cfg env (j, raw, n0, c0) s = (r1, s1)"
    and lo1: "model_spend s Gpt5 \<le> model_spend s1 Gpt5"
    by blast
  show ?case
  proof (cases r1)
    case (Some e)
    with step x have "process_saved F cfg (x # ms) s = (Some e, s1)" by simp
    with lo1 show ?thesis by blast
  next
    case None
    from Cons [of s1]
    obtain r s' where rest: "process_saved F cfg ms s1 = (r, s')"
      and lo: "model_spend s1 Gpt5 \<le> model_spend s' Gpt5"
      by blast
    from step rest x None have "process_saved F cfg (x # ms) s = (r, s')" by simp
    moreover from lo lo1 have "model_spend s Gpt5 \<le> model_spend s' Gpt5" by linarith
    ultimately show ?thesis by blast
  qed
qed


text \<open>The run of Scenario 2 repeated: every pass is escalated while the counter allows it.\<close>

lemma analyse_answered:
  assumes "openai_client cfg" "embedding_response env = Some v"
    and "analyse F cfg env i n c s = (tv, sim, s4)"
  shows "model_spend s4 Gpt5 = model_spend s Gpt5 + 1 / 10000"
proof -
  let ?price = "case n_price n of None \<Rightarrow> 0 | Some p \<Rightarrow> p"
  obtain t1 s1 where e: "evaluate_trust cfg env ?price c s = (t1, s1)" by (rule prod.exhaust)
  let ?s2 = "selective_perplexity cfg env ?price s1"
  let ?s3 = "add_spend Gpt5 (1 / 10000) (log_event Embedding_request ?s2)"
  have g: "get_embedding cfg env (text_for_embed n) ?s2 = (v, ?s3)"
    by (rule get_embedding_answered [OF assms(1,2)])
  from assms(3) e g have s4: "s4 = save_embedding i v ?s3"
    by (simp add: analyse_def Let_def)
  from evaluate_trust_frame [OF e] selective_perplexity_frame [of cfg env ?price s1]
  show ?thesis unfolding s4 by simp
qed

lemma answered_trust:
  "fst (evaluate_trust default_config answering 2500000 c s) = Number (9 / 10)"
  by (simp add: evaluate_trust_def call_anthropic_validation_def default_config_def
      answering_simps)

lemma big_listing_passes: "\<not> missing_critical big_listing"
  by (simp add: missing_critical_def big_listing_def listing_with_def)

lemma big_listing_price: "n_price big_listing = Some 2500000"
  by (simp add: big_listing_def listing_with_def)

lemma escalated_step:
  assumes row: "find (\<lambda>r. row_id r = 1) (listings s) = Some row"
    and norm: "row_normalized row = big_listing"
  shows "\<exists>s'. process_listing F default_config answering big_mapping s = (None, s')
        \<and> model_spend s' Gpt5 =
            model_spend s Gpt5 + (if model_spend s Gpt5 + 1 / 10000 < 50 then 1001 / 10000
                                  else 1 / 10000)
        \<and> (\<exists>row'. find (\<lambda>r. row_id r = 1) (listings s') = Some row'
               \<and> row_normalized row' = big_listing)"
proof -
  let ?c = "row_confidence row"
  from reload_found [OF row, of sample_raw big_listing "9 / 10"] norm
  have rl: "reload s (1, sample_raw, big_listing, 9 / 10) = (big_listing, ?c)" by simp
  obtain tv sim s4 where
    an: "analyse F default_config answering 1 big_listing ?c s = (tv, sim, s4)"
    by (rule prod_cases3)
  from analyse_trust [of F default_config answering 1 big_listing ?c s]
  have "tv = Number (9 / 10)"
    unfolding an fst_conv big_listing_price option.case by (simp only: answered_trust)
  with an have an': "analyse F default_config answering 1 big_listing ?c s
                       = (Number (9 / 10), sim, s4)" by simp
  have client: "openai_client default_config" by (simp add: default_config_def)
  note a = analyse_frame [OF an]
  have m4: "model_spend s4 Gpt5 = model_spend s Gpt5 + 1 / 10000"
    by (rule analyse_answered [OF client answering_simps(3) an])
  have nf: "needs_final default_config 2500000 (9 / 10) sim"
    by (simp add: needs_final_def default_config_def)
  have cap: "DAILY_GPT5_BUDGET default_config = 50" by (simp add: default_config_def)
  obtain final s5 where
    f: "finalize_selective default_config answering big_listing 2500000 (9 / 10) sim s4
          = Inr (final, s5)"
    and m5: "model_spend s5 Gpt5 =
               model_spend s4 Gpt5 + (if model_spend s4 Gpt5 < 50 then 1 / 10 else 0)"
    and l5: "listings s5 = listings s4"
  proof (cases "model_spend s4 Gpt5 < 50")
    case True
    with nf cap client
    have "finalize_selective default_config answering big_listing 2500000 (9 / 10) sim s4 =
            Inr (\<lparr> approve = True, final_price_band = None, final_trust_score = Some (9 / 10) \<rparr>,
                 add_spend Gpt5 (5 / 100) (add_spend Gpt5 (5 / 100)
                   (log_event Chat_request (log_event Finalize_call s4))))"
      by (simp add: finalize_selective_def call_gpt5_finalize_def answering_simps)
    with True that show ?thesis by simp
  next
    case False
    with cap
    have "finalize_selective default_config answering big_listing 2500000 (9 / 10) sim s4 =
            Inr (default_decision 2500000 (9 / 10), s4)"
      by (simp add: finalize_selective_def)
    with False that show ?thesis by simp
  qed
  let ?s' = "update_final_status default_config 1 sample_raw big_listing final (9 / 10)
               (cache_images answering (n_images big_listing)) s5"
  from f have f': "finalize_selective default_config answering big_listing
                     (case n_price big_listing of None \<Rightarrow> 0 | Some p \<Rightarrow> p) (9 / 10) sim s4
                   = Inr (final, s5)"
    by (simp add: big_listing_price)
  have res: "process_listing F default_config answering big_mapping s = (None, ?s')"
    unfolding big_mapping_def by (rule process_listing_passed [OF rl big_listing_passes an' f'])
  note u = update_final_status_frame [of default_config 1 sample_raw big_listing final "9 / 10"
             "cache_images answering (n_images big_listing)" s5]
  from u obtain st where st: "listings ?s' = set_status 1 st (Some (Number (9 / 10))) (listings s5)"
    by blast
  from a l5 have "listings s5 = listings s" by simp
  with st find_set_status_same [OF row, of st "Some (Number (9 / 10))"] norm
  have rows: "\<exists>row'. find (\<lambda>r. row_id r = 1) (listings ?s') = Some row'
               \<and> row_normalized row' = big_listing"
    by auto
  from u have "model_spend ?s' Gpt5 = model_spend s5 Gpt5" by simp
  with m5 m4 have spend: "model_spend ?s' Gpt5 =
            model_spend s Gpt5 + (if model_spend s Gpt5 + 1 / 10000 < 50 then 1001 / 10000
                                  else 1 / 10000)"
    by simp
  from res spend rows show ?thesis by blast
qed

lemma escalated_run:
  assumes "find (\<lambda>r. row_id r = 1) (listings s) = Some row"
    and "row_normalized row = big_listing"
    and "model_spend s Gpt5 + real k * (1001 / 10000) < 50 + 1 / 10"
  shows "\<exists>s' row'. process_saved F default_config (replicate k (big_mapping, answering)) s = (None, s')
        \<and> model_spend s' Gpt5 = model_spend s Gpt5 + real k * (1001 / 10000)
        \<and> find (\<lambda>r. row_id r = 1) (listings s') = Some row'
        \<and> row_normalized row' = big_listing"
  using assms
proof (induction k arbitrary: s row)
  case 0
  then show ?case by simp
next
  case (Suc k)
  define a where "a = model_spend s Gpt5"
  define x where "x = real k * (1001 / 10000)"
  have x0: "0 \<le> x" unfolding x_def by simp
  have exp: "real (Suc k) * (1001 / 10000) = x + 1001 / 10000"
    unfolding x_def by (simp add: algebra_simps)
  from Suc.prems(3) have bound: "a + (x + 1001 / 10000) < 50 + 1 / 10"
    unfolding a_def exp .
  from bound x0 have open_gate: "a + 1 / 10000 < 50" by linarith
  from escalated_step [OF Suc.prems(1,2), of F] open_gate
  obtain s1 row1 where step: "process_listing F default_config answering big_mapping s = (None, s1)"
    and m1: "model_spend s1 Gpt5 = a + 1001 / 10000"
    and r1: "find (\<lambda>r. row_id r = 1) (listings s1) = Some row1"
    and n1: "row_normalized row1 = big_listing"
    unfolding a_def by auto
  from bound m1 have b1: "model_spend s1 Gpt5 + real k * (1001 / 10000) < 50 + 1 / 10"
    unfolding x_def by linarith
  from Suc.IH [OF r1 n1 b1]
  obtain s' row' where rest: "process_saved F default_config (replicate k (big_mapping, answering)) s1
                                = (None, s')"
    and m: "model_spend s' Gpt5 = model_spend s1 Gpt5 + real k * (1001 / 10000)"
    and r: "find (\<lambda>r. row_id r = 1) (listings s') = Some row'" "row_normalized row' = big_listing"
    by blast
  from step rest
  have run: "process_saved F default_config (replicate (Suc k) (big_mapping, answering)) s = (None, s')"
    by simp
  from m m1 have "model_spend s' Gpt5 = model_spend s Gpt5 + real (Suc k) * (1001 / 10000)"
    unfolding exp x_def a_def by linarith
  with run r show ?case by blast
qed

lemma capped_run:
  assumes "find (\<lambda>r. row_id r = 1) (listings s) = Some row"
    and "row_normalized row = big_listing"
    and "50 \<le> model_spend s Gpt5"
  shows "\<exists>s' row'. process_saved F default_config (replicate k (big_mapping, answering)) s = (None, s')
        \<and> model_spend s' Gpt5 = model_spend s Gpt5 + real k / 10000
        \<and> find (\<lambda>r. row_id r = 1) (listings s') = Some row'
        \<and> row_normalized row' = big_listing"
  using assms
proof (induction k arbitrary: s row)
  case 0
  then show ?case by simp
next
  case (Suc k)
  define a where "a = model_spend s Gpt5"
  from Suc.prems(3) have closed: "\<not> a + 1 / 10000 < 50" unfolding a_def by linarith
  from escalated_step [OF Suc.prems(1,2), of F] closed
  obtain s1 row1 where step: "process_listing F default_config answering big_mapping s = (None, s1)"
    and m1: "model_spend s1 Gpt5 = a + 1 / 10000"
    and r1: "find (\<lambda>r. row_id r = 1) (listings s1) = Some row1"
    and n1: "row_normalized row1 = big_listing"
    unfolding a_def by auto
  from Suc.prems(3) m1 have c1: "50 \<le> model_spend s1 Gpt5" unfolding a_def by linarith
  from Suc.IH [OF r1 n1 c1]
  obtain s' row' where rest: "process_saved F default_config (replicate k (big_mapping, answering)) s1
                                = (None, s')"
    and m: "model_spend s' Gpt5 = model_spend s1 Gpt5 + real k / 10000"
    and r: "find (\<lambda>r. row_id r = 1) (listings s') = Some row'" "row_normalized row' = big_listing"
    by blast
  from step rest
  have run: "process_saved F default_config (replicate (Suc k) (big_mapping, answering)) s = (None, s')"
    by simp
  have "real (Suc k) / 10000 = real k / 10000 + 1 / 10000" by (simp add: field_simps)
  with m m1 have "model_spend s' Gpt5 = model_spend s Gpt5 + real (Suc k) / 10000"
    unfolding a_def by linarith
  with run r show ?case by blast
qed

lemma start_row:
  "\<exists>row. find (\<lambda>r. row_id r = 1) (listings start) = Some row \<and> row_normalized row = big_listing"
  by (simp add: start_def initial_state_def)

text \<open>
  From counters at zero and with the defaults, 1001 listings of Scenario 2 whose
  requests are all answered leave the \<open>gpt5\<close> counter above the cap plus one per-call
  cost, and above the cap plus all that one finalization adds. Each of the first 500
  passes finds the counter below 50 after the embedding cost and adds 0.05 twice, which
  gives 50.05; each of the other 501 passes adds the cost of its embedding, 0.0001.
\<close>

theorem gpt5_counter_exceeds_cap:
  "model_spend start Gpt5 = 0
   \<and> fst (process_saved exact_ops default_config (replicate 1001 (big_mapping, answering)) start)
       = None
   \<and> DAILY_GPT5_BUDGET default_config + 5 / 100
       < spend_after Gpt5
           (process_saved exact_ops default_config (replicate 1001 (big_mapping, answering)) start)
   \<and> DAILY_GPT5_BUDGET default_config + 10 / 100
       < spend_after Gpt5
           (process_saved exact_ops default_config (replicate 1001 (big_mapping, answering)) start)"
proof -
  have zero: "model_spend start Gpt5 = 0" by (simp add: start_def initial_state_def)
  from start_row obtain row where row: "find (\<lambda>r. row_id r = 1) (listings start) = Some row"
    "row_normalized row = big_listing" by blast
  have "model_spend start Gpt5 + real (500 :: nat) * (1001 / 10000) < 50 + 1 / 10"
    unfolding zero by simp
  from escalated_run [OF row this, of exact_ops]
  obtain s1 row1 where
    first: "process_saved exact_ops default_config (replicate 500 (big_mapping, answering)) start
              = (None, s1)"
    and m1: "model_spend s1 Gpt5 = 5005 / 100"
    and r1: "find (\<lambda>r. row_id r = 1) (listings s1) = Some row1" "row_normalized row1 = big_listing"
    unfolding zero by auto
  from m1 have "50 \<le> model_spend s1 Gpt5" by simp
  from capped_run [OF r1 this, of exact_ops 501] m1
  obtain s2 where last: "process_saved exact_ops default_config
                           (replicate 501 (big_mapping, answering)) s1 = (None, s2)"
    and m2: "model_spend s2 Gpt5 = 501001 / 10000"
    by auto
  have n: "(1001 :: nat) = 500 + 501" by simp
  have "replicate 1001 (big_mapping, answering)
          = replicate 500 (big_mapping, answering) @ replicate 501 (big_mapping, answering)"
    unfolding n by (rule replicate_add)
  then have run: "process_saved exact_ops default_config (replicate 1001 (big_mapping, answering)) start
               = (None, s2)"
    using first last by (simp only: process_saved_append prod.case option.case)
  have cap: "DAILY_GPT5_BUDGET default_config + 5 / 100 < model_spend s2 Gpt5"
    "DAILY_GPT5_BUDGET default_config + 10 / 100 < model_spend s2 Gpt5"
    unfolding m2 by (simp_all add: default_config_def)
  show ?thesis
    unfolding run spend_after_def fst_conv snd_conv using zero cap by (intro conjI refl)
qed

text \<open>
  Claim C1 (amended). For any sequence of calls of \<open>call_perplexity_check\<close> the
  \<open>perplexity\<close> counter never exceeds the larger of its initial value and the daily cap
  plus one per-call cost. The \<open>gpt5\<close> counter is not bounded by its cap plus one
  per-call cost: the cap gates the finalization call only, and every answered embedding
  request adds its cost to the same counter without a budget check. In any run of the
  loop, ended normally or by an exception, the counter does not decrease; once it has
  reached \<open>DAILY_GPT5_BUDGET\<close> no finalization call is made, in one pass and in the
  whole run, and a pass leaves the counter as it was or adds one embedding cost of
  0.0001.
\<close>

theorem budget_bound:
  "model_spend (perplexity_calls cfg envs s) Perplexity
     \<le> max (model_spend s Perplexity) (DAILY_PERPLEXITY_BUDGET cfg + 3 / 100)
   \<and> model_spend s Gpt5 \<le> spend_after Gpt5 (process_saved F cfg ms s)
   \<and> (DAILY_GPT5_BUDGET cfg \<le> model_spend s Gpt5 \<longrightarrow>
         logged Finalize_call (snd (process_saved F cfg ms s)) = logged Finalize_call s
         \<and> logged Finalize_call (snd (process_listing F cfg env m s)) = logged Finalize_call s
         \<and> (spend_after Gpt5 (process_listing F cfg env m s) = model_spend s Gpt5
              \<or> spend_after Gpt5 (process_listing F cfg env m s) = model_spend s Gpt5 + 1 / 10000))"
proof (intro conjI impI)
  show "model_spend (perplexity_calls cfg envs s) Perplexity
     \<le> max (model_spend s Perplexity) (DAILY_PERPLEXITY_BUDGET cfg + 3 / 100)"
    by (rule perplexity_calls_bound)
  from gpt5_spend_monotone [of F cfg ms s]
  show "model_spend s Gpt5 \<le> spend_after Gpt5 (process_saved F cfg ms s)"
    by (auto simp: spend_after_def)
  assume cap: "DAILY_GPT5_BUDGET cfg \<le> model_spend s Gpt5"
  from process_saved_capped [OF cap, of F ms]
  show "logged Finalize_call (snd (process_saved F cfg ms s)) = logged Finalize_call s"
    by auto
  obtain j raw n0 c0 where m: "m = (j, raw, n0, c0)" by (cases m) auto
  from process_listing_capped [OF cap, of F env j raw n0 c0]
  show "logged Finalize_call (snd (process_listing F cfg env m s)) = logged Finalize_call s"
    and "spend_after Gpt5 (process_listing F cfg env m s) = model_spend s Gpt5
              \<or> spend_after Gpt5 (process_listing F cfg env m s) = model_spend s Gpt5 + 1 / 10000"
    unfolding m by (auto simp: spend_after_def)
qed

text \<open>Scenario 3: with the counter at the cap the listing is not sent to the provider.\<close>

theorem budget_bound_witness:
  "DAILY_GPT5_BUDGET default_config \<le> model_spend at_cap Gpt5
   \<and> logged Finalize_call
        (snd (process_saved exact_ops default_config [(big_mapping, answering)] at_cap)) = 0
   \<and> logged Finalize_call
        (snd (process_listing exact_ops default_config answering big_mapping at_cap)) = 0
   \<and> 50 \<le> spend_after Gpt5
              (process_saved exact_ops default_config [(big_mapping, answering)] at_cap)"
proof -
  have cap: "DAILY_GPT5_BUDGET default_config \<le> model_spend at_cap Gpt5"
    by (simp add: at_cap_def default_config_def)
  have clean: "logged Finalize_call at_cap = 0" "model_spend at_cap Gpt5 = 50"
    by (simp_all add: logged_def at_cap_def initial_state_def)
  from budget_bound [of default_config "[]" at_cap exact_ops "[(big_mapping, answering)]"
         answering big_mapping] cap
  have "logged Finalize_call
        (snd (process_saved exact_ops default_config [(big_mapping, answering)] at_cap))
          = logged Finalize_call at_cap"
    "logged Finalize_call
        (snd (process_listing exact_ops default_config answering big_mapping at_cap))
          = logged Finalize_call at_cap"
    "model_spend at_cap Gpt5
       \<le> spend_after Gpt5
             (process_saved exact_ops default_config [(big_mapping, answering)] at_cap)"
    by blast+
  with cap clean show ?thesis by simp
qed


end
